theory Spec2Isabelle
  imports Main
begin

text \<open>
  A shallow embedding of the SpinWick orchestrator of mattermod: the waiters of
  \<^verbatim>\<open>server/builds.go\<close> and the create, update and destroy flows of
  \<^verbatim>\<open>server/spinwick.go\<close>. Every call to a collaborator (the provisioning server, the
  store, GitHub, Jenkins, the registry) is answered by a value the run is given, and the
  calls that leave the process are recorded in a trace.
\<close>

section \<open>Go values\<close>

text \<open>
  A Go call either returns a value or panics (a nil dereference, a slice bound out of
  range). A Go \<^verbatim>\<open>error\<close> is modelled by its message; the value \<^verbatim>\<open>nil\<close> of type
  \<^verbatim>\<open>error\<close> is \<open>None\<close>. A pair \<^verbatim>\<open>(value, err)\<close> returned by a collaborator is a sum,
  \<open>Inl\<close> carrying the error.
\<close>

datatype 'a result = Ret 'a | Panic

type_synonym error = string

text \<open>The slice expression \<^verbatim>\<open>s[lo:hi]\<close> on a string: bytes \<open>lo\<close> to \<open>hi - 1\<close>, a
  run-time panic when the bounds are out of range.\<close>

definition sliceString :: "string \<Rightarrow> nat \<Rightarrow> nat \<Rightarrow> string result" where
  "sliceString s lo hi =
     (if lo \<le> hi \<and> hi \<le> length s then Ret (take (hi - lo) (drop lo s)) else Panic)"

text \<open>\<^verbatim>\<open>strings.HasPrefix\<close> and \<^verbatim>\<open>strings.Contains\<close>.\<close>

fun hasPrefix :: "string \<Rightarrow> string \<Rightarrow> bool" where
  "hasPrefix s [] = True"
| "hasPrefix [] (c # cs) = False"
| "hasPrefix (x # xs) (c # cs) = (x = c \<and> hasPrefix xs cs)"

fun contains :: "string \<Rightarrow> string \<Rightarrow> bool" where
  "contains [] sub = (sub = [])"
| "contains (x # xs) sub = (hasPrefix (x # xs) sub \<or> contains xs sub)"

text \<open>\<^verbatim>\<open>errors.Wrap(err, msg)\<close> of pkg/errors: the message is \<^verbatim>\<open>msg + ": " + err.Error()\<close>.\<close>

definition wrap :: "error \<Rightarrow> string \<Rightarrow> error" where
  "wrap err msg = msg @ '': '' @ err"

text \<open>\<^verbatim>\<open>strings.ToLower\<close> on the ASCII range, where it maps \<open>A\<close>..\<open>Z\<close> to \<open>a\<close>..\<open>z\<close> and
  leaves every other byte as it is (repository names are ASCII).\<close>

definition lowerChar :: "char \<Rightarrow> char" where
  "lowerChar c =
     (let n = of_char c :: nat in if 65 \<le> n \<and> n \<le> 90 then char_of (n + 32) else c)"

definition toLower :: "string \<Rightarrow> string" where
  "toLower s = map lowerChar s"

text \<open>The verb \<^verbatim>\<open>%d\<close> of \<^verbatim>\<open>fmt.Sprintf\<close> on an integer: decimal digits, a minus sign
  for a negative number.\<close>

fun digits :: "nat \<Rightarrow> string" where
  "digits n =
     (if n < 10 then [''0123456789'' ! n]
      else digits (n div 10) @ [''0123456789'' ! (n mod 10)])"

definition sprintd :: "int \<Rightarrow> string" where
  "sprintd i = (if i < 0 then CHR ''-'' # digits (nat (- i)) else digits (nat i))"

section \<open>Data model\<close>

text \<open>The structs of spinwick.go that mirror the provisioning server's models, with
  their string fields.\<close>

record Cluster =
  ID :: string
  Provider :: string
  Size :: string
  State :: string

record Installation =
  ID :: string
  OwnerID :: string
  Version :: string
  DNS :: string
  Size :: string
  Affinity :: string
  State :: string

record CreateClusterRequest =
  Provider :: string
  Size :: string
  Zones :: "string list"

record CreateInstallationRequest =
  OwnerID :: string
  Version :: string
  DNS :: string
  Size :: string
  Affinity :: string

definition zeroCluster :: Cluster where
  "zeroCluster = \<lparr>Cluster.ID = [], Cluster.Provider = [], Cluster.Size = [], Cluster.State = []\<rparr>"

definition zeroInstallation :: Installation where
  "zeroInstallation =
     \<lparr>Installation.ID = [], Installation.OwnerID = [], Installation.Version = [],
      Installation.DNS = [], Installation.Size = [], Installation.Affinity = [],
      Installation.State = []\<rparr>"

text \<open>\<^verbatim>\<open>model.Spinmint\<close>, the persisted record of an installation, as createSpinWick's caller
  fills it.\<close>

record Spinmint =
  InstanceId :: string
  RepoOwner :: string
  RepoName :: string
  Number :: int
  CreatedAt :: int

text \<open>The fields of a Jenkins build that \<^verbatim>\<open>waitForBuild\<close> reads.\<close>

record JenkinsBuild =
  Number :: int
  Building :: bool
  Result :: string

text \<open>The entries of a combined status and of a check-run listing; their fields are
  pointers in go-github, \<open>None\<close> is \<^verbatim>\<open>nil\<close>.\<close>

record RepoStatus =
  Context :: "string option"
  TargetURL :: "string option"

record CheckRun =
  Name :: "string option"
  HTMLURL :: "string option"

text \<open>\<^verbatim>\<open>model.PullRequest\<close>, with the fields the orchestrator reads.\<close>

record PullRequest =
  RepoOwner :: string
  RepoName :: string
  Number :: int
  Sha :: string
  Labels :: "string list"
  BuildStatus :: string
  BuildConclusion :: string
  BuildLink :: string

text \<open>The configuration the orchestrator reads. \<^verbatim>\<open>GetRepository\<close> is not among the
  sources: its answer, a repository pointer and the flag \<^verbatim>\<open>ok\<close>, is a parameter.\<close>

record Repository =
  JenkinsServer :: string
  BuildStatusContext :: string

record JenkinsCredentials =
  URL :: string
  Username :: string
  ApiToken :: string

record Config =
  ProvisionerServer :: string
  DNSNameTestServer :: string
  SetupSpinWick :: string
  SetupSpinWickHA :: string
  SetupSpinmintFailedMessage :: string
  JenkinsCredentials :: "string \<rightharpoonup> JenkinsCredentials"
  GetRepository :: "string \<Rightarrow> string \<Rightarrow> Repository option \<times> bool"

section \<open>Effects\<close>

text \<open>
  The calls that leave the process are recorded in a trace, in the order of the calls:
  \<^verbatim>\<open>makeRequest(method, url, payload)\<close>, \<^verbatim>\<open>commentOnIssue(owner, repo, number, text)\<close>,
  \<^verbatim>\<open>mlog.Error(msg, ...)\<close>, \<^verbatim>\<open>initializeMattermostTestServer(mmURL, prNumber)\<close> and the
  calls to the store. Sleeps and informational logs leave no event.
\<close>

datatype payload =
    NoBody
  | InstallationBody CreateInstallationRequest
  | ClusterBody CreateClusterRequest
  | RawBody string

datatype event =
    Request string string payload
  | Comment string string int string
  | LogError string
  | InitializeTestServer string int
  | SavePullRequest PullRequest
  | GetSpinmint int
  | RemoveSpinmintInfo string

text \<open>
  What \<^verbatim>\<open>json.NewDecoder(body).Decode(&v)\<close> does to \<open>v\<close>: it succeeds and leaves a value
  in \<open>v\<close>; it returns \<^verbatim>\<open>io.EOF\<close> on an empty body and leaves \<open>v\<close> as it was; or it
  returns another error, with \<open>v\<close> as the decoder left it.
\<close>

datatype 'a decoded = Decoded 'a | DecodeEOF | DecodeErr error 'a

text \<open>The condition \<^verbatim>\<open>err != nil && err != io.EOF\<close> after a decode, with the error.\<close>

fun decodeFailed :: "'a decoded \<Rightarrow> error option" where
  "decodeFailed (Decoded x) = None"
| "decodeFailed DecodeEOF = None"
| "decodeFailed (DecodeErr err x) = Some err"

fun decodedValue :: "'a \<Rightarrow> 'a decoded \<Rightarrow> 'a" where
  "decodedValue v (Decoded x) = x"
| "decodedValue v DecodeEOF = v"
| "decodedValue v (DecodeErr err x) = x"

datatype 'a response = Response (StatusCode: int) (body: "'a decoded")

text \<open>Sequencing of calls: the trace of the first, then the rest unless it panicked.\<close>

definition emit :: "event list \<Rightarrow> event list \<times> 'a \<Rightarrow> event list \<times> 'a" where
  "emit es k = (es @ fst k, snd k)"

fun thenDo :: "event list \<times> 'a result \<Rightarrow> ('a \<Rightarrow> event list \<times> 'b result) \<Rightarrow> event list \<times> 'b result" where
  "thenDo (t, Panic) k = (t, Panic)"
| "thenDo (t, Ret x) k = emit t (k x)"

section \<open>builds.go\<close>

text \<open>\<^verbatim>\<open>getInstallationVersion\<close> returns \<^verbatim>\<open>pr.Sha[0:7]\<close>.\<close>

definition getInstallationVersion :: "PullRequest \<Rightarrow> string result" where
  "getInstallationVersion pr = sliceString (Sha pr) 0 7"

text \<open>
  One turn of the loop of \<^verbatim>\<open>waitForImage\<close> in which the timer fires before the context
  is done: the pair \<^verbatim>\<open>(pr, err)\<close> the store answers to \<^verbatim>\<open>Get\<close> and what the registry
  answers to \<^verbatim>\<open>ManifestDigest(image, tag)\<close>. The list of turns given to \<open>waitForImage\<close>
  holds the turns taken before \<^verbatim>\<open>ctx.Done()\<close> is selected; at its end the context is
  done.
\<close>

record image_poll =
  storeGet :: "PullRequest option \<times> error option"
  manifestDigest :: "string \<Rightarrow> string \<Rightarrow> error + string"

fun waitForImage :: "PullRequest \<Rightarrow> image_poll list \<Rightarrow> (PullRequest option \<times> error option) result" where
  "waitForImage pr [] = Ret (Some pr, Some ''timed out waiting for image to publish'')"
| "waitForImage pr (p # ps) =
     (case snd (storeGet p) of
        Some err \<Rightarrow>
          Ret (None, Some (wrap err ''unable to get updated PR from Mattermod database''))
      | None \<Rightarrow>
          (case fst (storeGet p) of
             None \<Rightarrow> Panic
           | Some pr' \<Rightarrow>
               (case getInstallationVersion pr' of
                  Panic \<Rightarrow> Panic
                | Ret desiredTag \<Rightarrow>
                    (case manifestDigest p ''mattermost/mattermost-enterprise-edition'' desiredTag of
                       Inl err \<Rightarrow>
                         if \<not> contains err ''status=404''
                         then Ret (Some pr',
                                   Some (wrap err ''unable to fetch tag from docker registry''))
                         else waitForImage pr' ps
                     | Inr digest \<Rightarrow> Ret (Some pr', None)))))"

text \<open>What the registry lookup of a turn answers, when the turn reaches the lookup.\<close>

definition lookupOf :: "image_poll \<Rightarrow> (error + string) option" where
  "lookupOf p =
     (case snd (storeGet p) of
        Some err \<Rightarrow> None
      | None \<Rightarrow>
          (case fst (storeGet p) of
             None \<Rightarrow> None
           | Some pr' \<Rightarrow>
               (case getInstallationVersion pr' of
                  Panic \<Rightarrow> None
                | Ret tag \<Rightarrow>
                    Some (manifestDigest p ''mattermost/mattermost-enterprise-edition'' tag))))"

definition notFoundLookup :: "image_poll \<Rightarrow> bool" where
  "notFoundLookup p =
     (case lookupOf p of Some (Inl err) \<Rightarrow> contains err ''status=404'' | _ \<Rightarrow> False)"

text \<open>The pull request the loop holds after a run of turns.\<close>

fun prAfter :: "PullRequest \<Rightarrow> image_poll list \<Rightarrow> PullRequest" where
  "prAfter pr [] = pr"
| "prAfter pr (p # ps) = prAfter (case fst (storeGet p) of Some pr' \<Rightarrow> pr' | None \<Rightarrow> pr) ps"

text \<open>\<^verbatim>\<open>strings.Split(s, "/")\<close>: the pieces between the separators, one more than there
  are separators.\<close>

fun splitOn :: "char \<Rightarrow> string \<Rightarrow> string list" where
  "splitOn sep [] = [[]]"
| "splitOn sep (c # cs) =
     (if c = sep then [] # splitOn sep cs
      else (case splitOn sep cs of [] \<Rightarrow> [[c]] | w # ws \<Rightarrow> (c # w) # ws))"

text \<open>
  One turn of the loop of \<^verbatim>\<open>waitForBuild\<close> in which the timer fires before the context
  is done: the pairs \<^verbatim>\<open>(pr, err)\<close> answered by the store and by \<^verbatim>\<open>GetUpdateChecks\<close>
  (which is not among the sources), the error of Jenkins' \<^verbatim>\<open>GetJob\<close> and the pair
  \<^verbatim>\<open>(build, err)\<close> of its \<^verbatim>\<open>GetBuild\<close>. The constant \<^verbatim>\<open>serverRepoName\<close> is declared
  outside the sources and is a parameter. The job number parsed from the link only
  selects the build asked of Jenkins, whose answer the turn gives.
\<close>

record build_poll =
  prGet :: "PullRequest option \<times> error option"
  getUpdateChecks :: "PullRequest option \<times> error option"
  getJob :: "error option"
  getBuild :: "JenkinsBuild \<times> error option"

definition jenkinsJobName :: "string list \<Rightarrow> string" where
  "jenkinsJobName parts =
     ''mp/job/'' @ parts ! (length parts - 6) @ ''/job/'' @ parts ! (length parts - 4)"

fun waitForBuild :: "string \<Rightarrow> PullRequest \<Rightarrow> build_poll list \<Rightarrow> (PullRequest option \<times> error option) result" where
  "waitForBuild serverRepoName pr [] = Ret (Some pr, Some ''timed out waiting for build to finish'')"
| "waitForBuild serverRepoName pr (p # ps) =
     (case snd (prGet p) of
        Some err \<Rightarrow>
          Ret (None, Some (wrap err ''unable to get updated PR from Mattermod database''))
      | None \<Rightarrow>
          (case fst (prGet p) of
             None \<Rightarrow> Panic
           | Some pr1 \<Rightarrow>
               (case snd (getUpdateChecks p) of
                  Some err \<Rightarrow>
                    Ret (fst (getUpdateChecks p),
                         Some (wrap err ''unable to get updated PR from GitHub''))
                | None \<Rightarrow>
                    (case fst (getUpdateChecks p) of
                       None \<Rightarrow> Panic
                     | Some pr2 \<Rightarrow>
                         if RepoName pr2 = ''mattermost-webapp'' then
                           if BuildStatus pr2 = ''in_progress''
                           then waitForBuild serverRepoName pr2 ps
                           else if BuildStatus pr2 = ''completed'' then
                             (if BuildConclusion pr2 = ''success'' then Ret (Some pr2, None)
                              else Ret (Some pr2, Some ''build failed''))
                           else Ret (Some pr2,
                                     Some (''unknown build status '' @ BuildStatus pr2))
                         else if BuildLink pr2 = [] then waitForBuild serverRepoName pr2 ps
                         else if RepoName pr2 = serverRepoName then
                           (let parts = splitOn CHR ''/'' (BuildLink pr2) in
                            if length parts < 6 then Panic
                            else
                              (case getJob p of
                                 Some err \<Rightarrow>
                                   Ret (Some pr2,
                                        Some (wrap err (''failed to get Jenkins job ''
                                                        @ jenkinsJobName parts)))
                               | None \<Rightarrow>
                                   (case snd (getBuild p) of
                                      Some err \<Rightarrow>
                                        Ret (Some pr2,
                                             Some (wrap err
                                                     (''failed to get Jenkins build ''
                                                      @ sprintd (JenkinsBuild.Number
                                                                   (fst (getBuild p))))))
                                    | None \<Rightarrow>
                                        (let build = fst (getBuild p) in
                                         if \<not> Building build \<and> Result build = ''SUCCESS''
                                         then Ret (Some pr2, None)
                                         else if Result build = ''FAILURE''
                                                 \<or> Result build = ''ABORTED''
                                         then Ret (Some pr2,
                                                   Some (''build ''
                                                         @ sprintd (JenkinsBuild.Number build)
                                                         @ '' failed with status '' @ [CHR 0x22]
                                                         @ Result build @ [CHR 0x22]))
                                         else waitForBuild serverRepoName pr2 ps))))
                         else Ret (Some pr2,
                                   Some (''unsupported repository '' @ RepoName pr2))))))"

text \<open>
  \<^verbatim>\<open>checkBuildLink\<close>, which builds.go and spinwick.go both hold with the same body. The
  two scans are its two \<^verbatim>\<open>for ... range\<close> loops; \<open>Ret None\<close> is a scan that falls
  through. A turn gives the pair answered by \<^verbatim>\<open>GetCombinedStatus\<close> and by
  \<^verbatim>\<open>ListCheckRunsForRef\<close>; the loop fetches before it selects, so there is a first turn,
  and the context is done after the last.
\<close>

fun scanStatuses :: "Repository option \<Rightarrow> RepoStatus list \<Rightarrow> string option result" where
  "scanStatuses repo [] = Ret None"
| "scanStatuses repo (status # statuses) =
     (case (Context status, repo) of
        (Some c, Some r) \<Rightarrow>
          if c = BuildStatusContext r then
            (case TargetURL status of
               None \<Rightarrow> Panic
             | Some u \<Rightarrow> if u \<noteq> [] then Ret (Some u) else scanStatuses repo statuses)
          else scanStatuses repo statuses
      | _ \<Rightarrow> Panic)"

fun scanCheckRuns :: "Repository option \<Rightarrow> CheckRun list \<Rightarrow> string option result" where
  "scanCheckRuns repo [] = Ret None"
| "scanCheckRuns repo (status # checks) =
     (case (Name status, repo) of
        (Some n, Some r) \<Rightarrow>
          if n = BuildStatusContext r
          then Ret (Some (case HTMLURL status of None \<Rightarrow> [] | Some u \<Rightarrow> u))
          else scanCheckRuns repo checks
      | _ \<Rightarrow> Panic)"

record link_poll =
  combinedStatus :: "error + RepoStatus list"
  checkRuns :: "error + CheckRun list"

fun checkBuildLink :: "Config \<Rightarrow> PullRequest \<Rightarrow> link_poll \<Rightarrow> link_poll list \<Rightarrow> event list \<times> (error + string) result" where
  "checkBuildLink cfg pr p ps =
     (let repo = fst (GetRepository cfg (RepoOwner pr) (RepoName pr)) in
      case combinedStatus p of
        Inl err \<Rightarrow> ([], Ret (Inl err))
      | Inr statuses \<Rightarrow>
          (case scanStatuses repo statuses of
             Panic \<Rightarrow> ([], Panic)
           | Ret (Some targetURL) \<Rightarrow> ([], Ret (Inr targetURL))
           | Ret None \<Rightarrow>
               (case checkRuns p of
                  Inl err \<Rightarrow> ([], Ret (Inl err))
                | Inr checks \<Rightarrow>
                    (case scanCheckRuns repo checks of
                       Panic \<Rightarrow> ([], Panic)
                     | Ret (Some htmlURL) \<Rightarrow> ([], Ret (Inr htmlURL))
                     | Ret None \<Rightarrow>
                         (case ps of
                            [] \<Rightarrow>
                              ([Comment (RepoOwner pr) (RepoName pr) (Number pr)
                                  ''Timed out waiting for build link. Please check the logs.''],
                               Ret (Inl ''timed out waiting the build link''))
                          | p' # ps' \<Rightarrow> checkBuildLink cfg pr p' ps')))))"

section \<open>spinwick.go\<close>

definition makePullRequestID :: "string \<Rightarrow> int \<Rightarrow> string" where
  "makePullRequestID repoName prNumber = toLower (repoName @ ''-pr-'' @ sprintd prNumber)"

text \<open>
  \<^verbatim>\<open>destroyMMInstallation\<close>. The answer to the DELETE request is either an error of the
  transport, with a \<^verbatim>\<open>nil\<close> response, or a response of any status. After a transport
  error the function logs and goes on to \<^verbatim>\<open>defer resp.Body.Close()\<close>, which dereferences
  the \<^verbatim>\<open>nil\<close> response.
\<close>

definition destroyMMInstallation :: "Config \<Rightarrow> string \<Rightarrow> error + unit response \<Rightarrow> event list \<times> unit result" where
  "destroyMMInstallation cfg instanceClusterID answer =
     (let url = ProvisionerServer cfg @ ''/api/installation/'' @ instanceClusterID in
      case answer of
        Inl err \<Rightarrow> ([Request ''DELETE'' url NoBody, LogError ''Error deleting the installation''], Panic)
      | Inr resp \<Rightarrow> ([Request ''DELETE'' url NoBody], Ret ()))"

text \<open>Modelled from the spec: \<^verbatim>\<open>removeSpinmintInfo\<close> is not among the sources; the spec has
  Destroy "delete the persisted record" after the delete request. The store is the list
  of persisted records.\<close>

definition removeSpinmintInfo :: "string \<Rightarrow> Spinmint list \<Rightarrow> Spinmint list" where
  "removeSpinmintInfo instanceClusterID store =
     filter (\<lambda>r. InstanceId r \<noteq> instanceClusterID) store"

definition destroySpinWick :: "Config \<Rightarrow> PullRequest \<Rightarrow> string \<Rightarrow> error + unit response \<Rightarrow> Spinmint list \<Rightarrow> (event list \<times> unit result) \<times> Spinmint list" where
  "destroySpinWick cfg pr instanceClusterID answer store =
     (case destroyMMInstallation cfg instanceClusterID answer of
        (t, Panic) \<Rightarrow> ((t, Panic), store)
      | (t, Ret u) \<Rightarrow>
          ((t @ [RemoveSpinmintInfo instanceClusterID], Ret ()),
           removeSpinmintInfo instanceClusterID store))"

text \<open>
  \<^verbatim>\<open>waitMattermostInstallation\<close>. The loop fetches before it selects, so there is a first
  answer to the GET request; the list holds the answers of the later turns, and the
  context is done after the last. A run calls \<^verbatim>\<open>initializeMattermostTestServer\<close> and
  \<^verbatim>\<open>destroyMMInstallation\<close> at most once each; \<open>mm_answers\<close> holds what the first returns
  (or that it panics) and what the DELETE request of the second is answered.
\<close>

record mm_answers =
  initializeAnswer :: "error option result"
  deleteAnswer :: "error + unit response"

definition newline :: char where
  "newline = CHR 0x0A"

definition userTable :: string where
  "userTable =
     ''| Account Type | Username | Password |'' @ [newline] @ ''|---|---|---|'' @ [newline]
     @ ''| Admin | sysadmin | Sys@dmin123 |'' @ [newline] @ ''| User | user-1 | User-1@123 |''"

fun waitMattermostInstallation :: "Config \<Rightarrow> PullRequest \<Rightarrow> string \<Rightarrow> bool \<Rightarrow> mm_answers \<Rightarrow> error + Installation response \<Rightarrow> (error + Installation response) list \<Rightarrow> event list \<times> error option result" where
  "waitMattermostInstallation cfg pr installationRequestID upgrade ans f fs =
     (let get = Request ''GET'' (ProvisionerServer cfg @ ''/api/installation/'' @ installationRequestID) NoBody;
          comment = Comment (RepoOwner pr) (RepoName pr) (Number pr)
      in
      case f of
        Inl err \<Rightarrow>
          ([get, LogError ''Error making the post request to create the mm installation''],
           Ret (Some err))
      | Inr resp \<Rightarrow>
          (case decodeFailed (body resp) of
             Some err \<Rightarrow>
               ([get, LogError ''Error decoding installation''],
                Ret (Some ''Error decoding installation''))
           | None \<Rightarrow>
               (let installationRequest = decodedValue zeroInstallation (body resp) in
                if Installation.State installationRequest = ''stable'' then
                  (let mmURL = ''https://'' @ makePullRequestID (RepoName pr) (Number pr) @ ''.''
                               @ DNSNameTestServer cfg
                   in
                   if \<not> upgrade then
                     (case initializeAnswer ans of
                        Panic \<Rightarrow> ([get, InitializeTestServer mmURL (Number pr)], Panic)
                      | Ret (Some userErr) \<Rightarrow>
                          emit [get, InitializeTestServer mmURL (Number pr),
                                comment ''Failed to create mattermost installation.'']
                            (thenDo
                               (destroyMMInstallation cfg (Installation.ID installationRequest)
                                  (deleteAnswer ans))
                               (\<lambda>u. ([], Ret None)))
                      | Ret None \<Rightarrow>
                          ([get, InitializeTestServer mmURL (Number pr),
                            comment (''Mattermost test server created! :tada:'' @ [newline, newline]
                                     @ ''Access here: '' @ mmURL @ [newline, newline] @ userTable)],
                           Ret None))
                   else
                     ([get,
                       comment (''Mattermost test server updated!'' @ [newline, newline]
                                @ ''Access here: '' @ mmURL)],
                      Ret None))
                else if Installation.State installationRequest = ''creation-failed'' then
                  emit [get, comment ''Failed to create mattermost installation.'']
                    (thenDo
                       (destroyMMInstallation cfg (Installation.ID installationRequest)
                          (deleteAnswer ans))
                       (\<lambda>u. ([], Ret (Some ''error creating mattermost installation''))))
                else
                  (case fs of
                     [] \<Rightarrow>
                       emit [get]
                         (thenDo
                            (destroyMMInstallation cfg (Installation.ID installationRequest)
                               (deleteAnswer ans))
                            (\<lambda>u. ([comment ''Timed out waiting for the mattermost installation. Please check the logs.''],
                                  Ret (Some ''timed out waiting for the mattermost installation complete. requesting the deletion''))))
                   | f' # fs' \<Rightarrow>
                       emit [get]
                         (waitMattermostInstallation cfg pr installationRequestID upgrade ans f' fs')))))"

text \<open>\<^verbatim>\<open>waitK8sCluster\<close>, with the answers to its GET requests as for the installation.
  A decode error is logged and the loop goes on with the cluster as the decoder left it.\<close>

fun waitK8sCluster :: "Config \<Rightarrow> PullRequest \<Rightarrow> string \<Rightarrow> error + Cluster response \<Rightarrow> (error + Cluster response) list \<Rightarrow> event list \<times> error option result" where
  "waitK8sCluster cfg pr clusterRequestID f fs =
     (let get = Request ''GET'' (ProvisionerServer cfg @ ''/api/cluster/'' @ clusterRequestID) NoBody;
          comment = Comment (RepoOwner pr) (RepoName pr) (Number pr)
      in
      case f of
        Inl err \<Rightarrow>
          ([get, LogError ''Error making the post request to create the k8s cluster''],
           Ret (Some err))
      | Inr resp \<Rightarrow>
          (let clusterRequest = decodedValue zeroCluster (body resp);
               logged = (case decodeFailed (body resp) of
                           Some err \<Rightarrow> [LogError ''Error decoding cluster response'']
                         | None \<Rightarrow> [])
           in
           if Cluster.State clusterRequest = ''stable'' then
             (get # logged
              @ [comment ''Kubernetes cluster created. Now will deploy Mattermost... Hang on!''],
              Ret None)
           else if Cluster.State clusterRequest = ''creation-failed'' then
             (get # logged @ [comment ''Failed to create the k8s cluster.''],
              Ret (Some ''error creating k8s cluster''))
           else
             (case fs of
                [] \<Rightarrow>
                  (get # logged
                   @ [comment ''Timed out waiting for the kubernetes cluster. Please check the logs.''],
                   Ret (Some ''timed out waiting for the cluster installation complete''))
              | f' # fs' \<Rightarrow>
                  emit (get # logged) (waitK8sCluster cfg pr clusterRequestID f' fs'))))"

text \<open>\<^verbatim>\<open>requestK8sClusterCreation\<close>. Marshalling the request, a struct of strings, cannot
  fail.\<close>

record cluster_env =
  createClusterAnswer :: "error + Cluster response"
  clusterFetch :: "error + Cluster response"
  clusterFetches :: "(error + Cluster response) list"

definition requestK8sClusterCreation :: "Config \<Rightarrow> PullRequest \<Rightarrow> cluster_env \<Rightarrow> event list \<times> error option result" where
  "requestK8sClusterCreation cfg pr env =
     (let started = [Comment (RepoOwner pr) (RepoName pr) (Number pr)
                       ''Please wait while a new kubernetes cluster is created for your SpinWick'',
                     Request ''POST'' (ProvisionerServer cfg @ ''/api/clusters'')
                       (ClusterBody \<lparr>CreateClusterRequest.Provider = [],
                                     CreateClusterRequest.Size = ''SizeAlef1000'',
                                     Zones = []\<rparr>)]
      in
      case createClusterAnswer env of
        Inl err \<Rightarrow>
          (started @ [LogError ''Error trying to send the k8s-cluster-creation request''],
           Ret (Some err))
      | Inr respReqCluster \<Rightarrow>
          (case decodeFailed (body respReqCluster) of
             Some err \<Rightarrow> (started @ [LogError ''Error decoding''], Ret (Some err))
           | None \<Rightarrow>
               emit started
                 (waitK8sCluster cfg pr
                    (Cluster.ID (decodedValue zeroCluster (body respReqCluster)))
                    (clusterFetch env) (clusterFetches env))))"

text \<open>\<^verbatim>\<open>createSpinWick\<close>, returning the pair \<^verbatim>\<open>(installationID, err)\<close> as a sum. The
  second decode writes into the installation the first decode left.\<close>

record install_env =
  answers :: mm_answers
  fetch :: "error + Installation response"
  fetches :: "(error + Installation response) list"

record create_env =
  createAnswer :: "error + Installation response"
  getAnswer :: "error + Installation response"
  clusterEnv :: cluster_env
  installEnv :: install_env

definition createSpinWick :: "Config \<Rightarrow> PullRequest \<Rightarrow> string \<Rightarrow> create_env \<Rightarrow> event list \<times> (error + string) result" where
  "createSpinWick cfg pr size' env =
     (let prID = makePullRequestID (RepoName pr) (Number pr) in
      case sliceString (Sha pr) 0 7 of
        Panic \<Rightarrow> ([], Panic)
      | Ret version \<Rightarrow>
          (let installationRequest =
                 \<lparr>OwnerID = prID, Version = version, DNS = prID @ ''.'' @ DNSNameTestServer cfg,
                  Size = size', Affinity = ''multitenant''\<rparr>;
               post = Request ''POST'' (ProvisionerServer cfg @ ''/api/installations'')
                        (InstallationBody installationRequest)
           in
           case createAnswer env of
             Inl err \<Rightarrow>
               ([post, LogError ''Error making the post request to create the mattermost installation''],
                Ret (Inl err))
           | Inr respReqInstallation \<Rightarrow>
               (case decodeFailed (body respReqInstallation) of
                  Some err \<Rightarrow>
                    ([post, LogError ''Error decoding installation response''], Ret (Inl err))
                | None \<Rightarrow>
                    (let installation = decodedValue zeroInstallation (body respReqInstallation);
                         installationID = Installation.ID installation;
                         get = Request ''GET''
                                 (ProvisionerServer cfg @ ''/api/installation/'' @ installationID)
                                 NoBody
                     in
                     case getAnswer env of
                       Inl err \<Rightarrow>
                         ([post, get,
                           LogError ''Error making the post request to create the mm installation''],
                          Ret (Inl err))
                     | Inr resp \<Rightarrow>
                         (case decodeFailed (body resp) of
                            Some err \<Rightarrow>
                              ([post, get, LogError ''Error decoding installation''],
                               Ret (Inl ''Error decoding installation''))
                          | None \<Rightarrow>
                              thenDo
                                (emit [post, get]
                                   (if Installation.State (decodedValue installation (body resp))
                                       = ''creation-no-compatible-clusters''
                                    then requestK8sClusterCreation cfg pr (clusterEnv env)
                                    else ([], Ret None)))
                                (\<lambda>err. case err of
                                   Some e \<Rightarrow> ([], Ret (Inl e))
                                 | None \<Rightarrow>
                                     thenDo
                                       (waitMattermostInstallation cfg pr installationID False
                                          (answers (installEnv env)) (fetch (installEnv env))
                                          (fetches (installEnv env)))
                                       (\<lambda>err. case err of
                                          Some e \<Rightarrow> ([], Ret (Inl e))
                                        | None \<Rightarrow> ([], Ret (Inr installationID)))))))))"

text \<open>
  \<^verbatim>\<open>waitForBuildComplete\<close>. It calls a \<^verbatim>\<open>waitForBuild(client, pr)\<close> that returns a pull
  request and a flag and is not among the sources; the answer of that call is a
  parameter. On a \<^verbatim>\<open>false\<close> flag or a \<^verbatim>\<open>nil\<close> pull request it comments through the
  returned pull request.
\<close>

definition waitForBuildComplete :: "Config \<Rightarrow> PullRequest \<Rightarrow> PullRequest option \<times> bool \<Rightarrow> event list \<times> error option result" where
  "waitForBuildComplete cfg pr waitForBuildAnswer =
     (let failed = Comment (RepoOwner pr) (RepoName pr) (Number pr) (SetupSpinmintFailedMessage cfg);
          unconfigured =
            ([LogError ''Unable to set up spintmint for PR without Jenkins configured for server'',
              failed],
             Ret (Some ''Unable to set up spintmint for PR without Jenkins configured for server''))
      in
      case GetRepository cfg (RepoOwner pr) (RepoName pr) of
        (repo, False) \<Rightarrow> unconfigured
      | (None, True) \<Rightarrow> ([], Panic)
      | (Some repo, True) \<Rightarrow>
          if JenkinsServer repo = [] then unconfigured
          else
            (case JenkinsCredentials cfg (JenkinsServer repo) of
               None \<Rightarrow>
                 ([LogError ''No Jenkins credentials for server required for PR'', failed],
                  Ret (Some ''No Jenkins credentials for server required for PR''))
             | Some credentials \<Rightarrow>
                 (case waitForBuildAnswer of
                    (None, errr) \<Rightarrow> ([], Panic)
                  | (Some pr', errr) \<Rightarrow>
                      if errr = False
                      then ([Comment (RepoOwner pr') (RepoName pr') (Number pr')
                               (SetupSpinmintFailedMessage cfg)],
                            Ret (Some ''error in the build. aborting''))
                      else ([], Ret None))))"

text \<open>\<^verbatim>\<open>updateSpinWick\<close>. The store answers \<^verbatim>\<open>Save\<close> with an error or none, and
  \<^verbatim>\<open>Spinmint().Get\<close> with an error or the record, if there is one.\<close>

record update_env =
  linkPoll :: link_poll
  linkPolls :: "link_poll list"
  saveAnswer :: "error option"
  spinmintAnswer :: "error + Spinmint option"
  waitForBuildAnswer :: "PullRequest option \<times> bool"
  upgradeAnswer :: "error + unit response"
  upgradeEnv :: install_env

definition updateSpinWick :: "Config \<Rightarrow> PullRequest \<Rightarrow> update_env \<Rightarrow> event list \<times> unit result" where
  "updateSpinWick cfg pr env =
     (let failed = Comment (RepoOwner pr) (RepoName pr) (Number pr) (SetupSpinmintFailedMessage cfg)
      in
      if \<not> (\<exists>label \<in> set (Labels pr). label = SetupSpinWick cfg \<or> label = SetupSpinWickHA cfg)
      then ([], Ret ())
      else
        thenDo (checkBuildLink cfg pr (linkPoll env) (linkPolls env))
          (\<lambda>link. case link of
             Inl err \<Rightarrow> ([failed], Ret ())
           | Inr buildLink \<Rightarrow>
               if buildLink = [] then ([failed], Ret ())
               else
                 (let pr = pr\<lparr>BuildLink := buildLink\<rparr> in
                  emit (SavePullRequest pr
                        # (case saveAnswer env of Some err \<Rightarrow> [LogError err] | None \<Rightarrow> [])
                        @ [GetSpinmint (Number pr)])
                    (case spinmintAnswer env of
                       Inl err \<Rightarrow>
                         ([LogError ''Unable to get the SpinWick information; skipping...''], Ret ())
                     | Inr None \<Rightarrow>
                         ([LogError ''No SpinWick for this PR in the database; skipping...''], Ret ())
                     | Inr (Some spinmint) \<Rightarrow>
                         (let installation = InstanceId spinmint in
                          emit [Comment (RepoOwner pr) (RepoName pr) (Number pr)
                                  ''New commit detected. SpinWick upgrade will occur after the build is successful.'']
                            (thenDo (waitForBuildComplete cfg pr (waitForBuildAnswer env))
                               (\<lambda>err. case err of
                                  Some e \<Rightarrow>
                                    ([LogError (''Error waiting for build to complete: '' @ e)],
                                     Ret ())
                                | None \<Rightarrow>
                                    (case sliceString (Sha pr) 0 7 of
                                       Panic \<Rightarrow> ([], Panic)
                                     | Ret shortCommit \<Rightarrow>
                                         (let put = Request ''PUT''
                                                      (ProvisionerServer cfg @ ''/api/installation/''
                                                       @ installation @ ''/mattermost'')
                                                      (RawBody (''{'' @ [newline, CHR 0x22]
                                                                @ ''version'' @ [CHR 0x22] @ '': ''
                                                                @ [CHR 0x22] @ shortCommit
                                                                @ [CHR 0x22] @ ''}''))
                                          in
                                          case upgradeAnswer env of
                                            Inl err \<Rightarrow>
                                              ([put,
                                                LogError ''Error making the put request to upgrade the mm cluster'',
                                                Comment (RepoOwner pr) (RepoName pr) (Number pr)
                                                  ''Error during the request to upgrade. Please remove the label and try again.''],
                                               Ret ())
                                          | Inr resp \<Rightarrow>
                                              if StatusCode resp \<noteq> 202 then
                                                ([put, LogError ''Error request was not accepted'',
                                                  Comment (RepoOwner pr) (RepoName pr) (Number pr)
                                                    ''Error doing the upgrade process. Please remove the label and try again.''],
                                                 Ret ())
                                              else
                                                emit [put]
                                                  (thenDo
                                                     (waitMattermostInstallation cfg pr installation
                                                        True (answers (upgradeEnv env))
                                                        (fetch (upgradeEnv env))
                                                        (fetches (upgradeEnv env)))
                                                     (\<lambda>err. case err of
                                                        Some e \<Rightarrow> ([failed], Ret ())
                                                      | None \<Rightarrow> ([], Ret ()))))))))))))"

section \<open>Observations on runs\<close>

text \<open>The installation a turn of \<^verbatim>\<open>waitMattermostInstallation\<close> observes: none when the
  request or the decoding fails.\<close>

definition observed :: "error + Installation response \<Rightarrow> Installation option" where
  "observed f =
     (case f of
        Inl err \<Rightarrow> None
      | Inr resp \<Rightarrow>
          (case decodeFailed (body resp) of
             Some err \<Rightarrow> None
           | None \<Rightarrow> Some (decodedValue zeroInstallation (body resp))))"

definition pending :: "error + Installation response \<Rightarrow> bool" where
  "pending f =
     (case observed f of
        Some i \<Rightarrow> Installation.State i \<noteq> ''stable'' \<and> Installation.State i \<noteq> ''creation-failed''
      | None \<Rightarrow> False)"

text \<open>The payloads of the requests of a trace, in order.\<close>

fun payloads :: "event list \<Rightarrow> payload list" where
  "payloads [] = []"
| "payloads (Request m u b # t) = b # payloads t"
| "payloads (e # t) = payloads t"

fun isRequest :: "event \<Rightarrow> bool" where
  "isRequest (Request m u b) = True"
| "isRequest e = False"

definition requests :: "event list \<Rightarrow> event list" where
  "requests t = filter isRequest t"

text \<open>The runs of \<^verbatim>\<open>updateSpinWick\<close> that reach the upgrade request: a SpinWick label is
  set, a build link is found, the record of the installation is stored and the build
  completes.\<close>

definition reachesUpgrade :: "Config \<Rightarrow> PullRequest \<Rightarrow> update_env \<Rightarrow> bool" where
  "reachesUpgrade cfg pr env =
     ((\<exists>label \<in> set (Labels pr). label = SetupSpinWick cfg \<or> label = SetupSpinWickHA cfg) \<and>
      (case snd (checkBuildLink cfg pr (linkPoll env) (linkPolls env)) of
         Ret (Inr buildLink) \<Rightarrow>
           buildLink \<noteq> [] \<and>
           (case spinmintAnswer env of
              Inr (Some spinmint) \<Rightarrow>
                snd (waitForBuildComplete cfg (pr\<lparr>BuildLink := buildLink\<rparr>) (waitForBuildAnswer env))
                  = Ret None
            | _ \<Rightarrow> False)
       | _ \<Rightarrow> False))"

text \<open>The body of the upgrade request for a version.\<close>

definition upgradePayload :: "string \<Rightarrow> payload" where
  "upgradePayload version =
     RawBody (''{'' @ [newline, CHR 0x22] @ ''version'' @ [CHR 0x22] @ '': '' @ [CHR 0x22]
              @ version @ [CHR 0x22] @ ''}'')"

text \<open>The requests of \<^verbatim>\<open>waitMattermostInstallation\<close> and \<^verbatim>\<open>destroyMMInstallation\<close>.\<close>

definition getInstallation :: "Config \<Rightarrow> string \<Rightarrow> event" where
  "getInstallation cfg i = Request ''GET'' (ProvisionerServer cfg @ ''/api/installation/'' @ i) NoBody"

definition deleteInstallation :: "Config \<Rightarrow> string \<Rightarrow> event" where
  "deleteInstallation cfg i =
     Request ''DELETE'' (ProvisionerServer cfg @ ''/api/installation/'' @ i) NoBody"

text \<open>The number of calls of \<^verbatim>\<open>initializeMattermostTestServer\<close> in a trace.\<close>

fun initializations :: "event list \<Rightarrow> nat" where
  "initializations [] = 0"
| "initializations (InitializeTestServer u n # t) = Suc (initializations t)"
| "initializations (e # t) = initializations t"

text \<open>The runs of \<^verbatim>\<open>createSpinWick\<close> whose fetch after the create request reports the state
  \<^verbatim>\<open>creation-no-compatible-clusters\<close>, and the installation id the create request
  returned.\<close>

definition needsCluster :: "create_env \<Rightarrow> bool" where
  "needsCluster env =
     (case createAnswer env of
        Inl err \<Rightarrow> False
      | Inr created \<Rightarrow>
          decodeFailed (body created) = None \<and>
          (case getAnswer env of
             Inl err \<Rightarrow> False
           | Inr resp \<Rightarrow>
               decodeFailed (body resp) = None \<and>
               Installation.State
                 (decodedValue (decodedValue zeroInstallation (body created)) (body resp))
                 = ''creation-no-compatible-clusters''))"

definition createdID :: "create_env \<Rightarrow> string" where
  "createdID env =
     (case createAnswer env of
        Inl err \<Rightarrow> []
      | Inr created \<Rightarrow> Installation.ID (decodedValue zeroInstallation (body created)))"

text \<open>The decision of a build waiter: the error it returns, or none.\<close>

fun decision :: "(PullRequest option \<times> error option) result \<Rightarrow> error option result" where
  "decision Panic = Panic"
| "decision (Ret (pr, err)) = Ret err"

text \<open>
  What a turn of \<^verbatim>\<open>waitForBuild\<close> reads: for a pull request of \<^verbatim>\<open>mattermost-webapp\<close> the
  fetched status and conclusion; for one of another repository its name, the fetched
  build link and the answers of Jenkins.
\<close>

datatype ci_signal =
    StoreFailed error
  | NoPullRequest
  | UpdateFailed error
  | CheckSignal string string
  | JenkinsSignal string string "error option" "JenkinsBuild \<times> error option"

definition signalOf :: "build_poll \<Rightarrow> ci_signal" where
  "signalOf p =
     (case snd (prGet p) of
        Some err \<Rightarrow> StoreFailed err
      | None \<Rightarrow>
          (case fst (prGet p) of
             None \<Rightarrow> NoPullRequest
           | Some pr1 \<Rightarrow>
               (case snd (getUpdateChecks p) of
                  Some err \<Rightarrow> UpdateFailed err
                | None \<Rightarrow>
                    (case fst (getUpdateChecks p) of
                       None \<Rightarrow> NoPullRequest
                     | Some pr2 \<Rightarrow>
                         if RepoName pr2 = ''mattermost-webapp''
                         then CheckSignal (BuildStatus pr2) (BuildConclusion pr2)
                         else JenkinsSignal (RepoName pr2) (BuildLink pr2) (getJob p)
                                (getBuild p)))))"

text \<open>The decision as a function of the signals: what a signal decides, if it ends the
  wait, and the decision of a run of signals that ends with the context done.\<close>

fun judge :: "string \<Rightarrow> ci_signal \<Rightarrow> error option result option" where
  "judge serverRepoName (StoreFailed err) =
     Some (Ret (Some (wrap err ''unable to get updated PR from Mattermod database'')))"
| "judge serverRepoName NoPullRequest = Some Panic"
| "judge serverRepoName (UpdateFailed err) =
     Some (Ret (Some (wrap err ''unable to get updated PR from GitHub'')))"
| "judge serverRepoName (CheckSignal status conclusion) =
     (if status = ''in_progress'' then None
      else if status = ''completed''
      then (if conclusion = ''success'' then Some (Ret None)
            else Some (Ret (Some ''build failed'')))
      else Some (Ret (Some (''unknown build status '' @ status))))"
| "judge serverRepoName (JenkinsSignal name link job build) =
     (if link = [] then None
      else if name = serverRepoName then
        (if length (splitOn CHR ''/'' link) < 6 then Some Panic
         else
           (case job of
              Some err \<Rightarrow>
                Some (Ret (Some (wrap err (''failed to get Jenkins job ''
                                           @ jenkinsJobName (splitOn CHR ''/'' link)))))
            | None \<Rightarrow>
                (case snd build of
                   Some err \<Rightarrow>
                     Some (Ret (Some (wrap err (''failed to get Jenkins build ''
                                                @ sprintd (JenkinsBuild.Number (fst build))))))
                 | None \<Rightarrow>
                     if \<not> Building (fst build) \<and> Result (fst build) = ''SUCCESS''
                     then Some (Ret None)
                     else if Result (fst build) = ''FAILURE'' \<or> Result (fst build) = ''ABORTED''
                     then Some (Ret (Some (''build '' @ sprintd (JenkinsBuild.Number (fst build))
                                           @ '' failed with status '' @ [CHR 0x22]
                                           @ Result (fst build) @ [CHR 0x22])))
                     else None)))
      else Some (Ret (Some (''unsupported repository '' @ name))))"

fun decide :: "string \<Rightarrow> ci_signal list \<Rightarrow> error option result" where
  "decide serverRepoName [] = Ret (Some ''timed out waiting for build to finish'')"
| "decide serverRepoName (s # ss) =
     (case judge serverRepoName s of Some d \<Rightarrow> d | None \<Rightarrow> decide serverRepoName ss)"

text \<open>
  What \<^verbatim>\<open>checkBuildLink\<close> reads of a turn under a context key: the statuses and the check
  runs whose context or name is the key (or is \<^verbatim>\<open>nil\<close>, on which the scan panics).
\<close>

definition relevantStatus :: "string \<Rightarrow> RepoStatus \<Rightarrow> bool" where
  "relevantStatus key status = (case Context status of None \<Rightarrow> True | Some c \<Rightarrow> c = key)"

definition relevantCheck :: "string \<Rightarrow> CheckRun \<Rightarrow> bool" where
  "relevantCheck key status = (case Name status of None \<Rightarrow> True | Some n \<Rightarrow> n = key)"

definition selectPoll :: "string \<Rightarrow> link_poll \<Rightarrow> link_poll" where
  "selectPoll key p =
     \<lparr>combinedStatus = map_sum id (filter (relevantStatus key)) (combinedStatus p),
      checkRuns = map_sum id (filter (relevantCheck key)) (checkRuns p)\<rparr>"

section \<open>Example inputs\<close>

definition exConfig :: Config where
  "exConfig =
     \<lparr>ProvisionerServer = ''https://provisioner'', DNSNameTestServer = ''test.example.com'',
      SetupSpinWick = ''Setup SpinWick'', SetupSpinWickHA = ''Setup HA SpinWick'',
      SetupSpinmintFailedMessage = ''Failed to set up the test server.'',
      JenkinsCredentials =
        [''jenkins'' \<mapsto> \<lparr>URL = ''https://jenkins'', Username = ''bot'', ApiToken = ''token''\<rparr>],
      GetRepository =
        (\<lambda>owner name. (Some \<lparr>JenkinsServer = ''jenkins'', BuildStatusContext = ''ci/build''\<rparr>, True))\<rparr>"

definition exPR :: PullRequest where
  "exPR =
     \<lparr>RepoOwner = ''mattermost'', RepoName = ''Mattermost-Server'', Number = 42,
      Sha = ''0123456789abcdef'', Labels = [''Setup SpinWick''], BuildStatus = [],
      BuildConclusion = [], BuildLink = []\<rparr>"

definition exImagePoll :: "error + string \<Rightarrow> image_poll" where
  "exImagePoll answer = \<lparr>storeGet = (Some exPR, None), manifestDigest = (\<lambda>image tag. answer)\<rparr>"

definition exBuild :: "bool \<Rightarrow> string \<Rightarrow> JenkinsBuild" where
  "exBuild building result' = \<lparr>JenkinsBuild.Number = 7, Building = building, Result = result'\<rparr>"

definition exBuildPoll :: "PullRequest \<Rightarrow> JenkinsBuild \<Rightarrow> build_poll" where
  "exBuildPoll pr build =
     \<lparr>prGet = (Some pr, None), getUpdateChecks = (Some pr, None), getJob = None,
      getBuild = (build, None)\<rparr>"

definition exSignalPR :: "string \<Rightarrow> string \<Rightarrow> string \<Rightarrow> PullRequest" where
  "exSignalPR repo status conclusion =
     exPR\<lparr>RepoName := repo, BuildStatus := status, BuildConclusion := conclusion\<rparr>"

definition exInstallation :: "string \<Rightarrow> string \<Rightarrow> Installation" where
  "exInstallation i st = zeroInstallation\<lparr>Installation.ID := i, Installation.State := st\<rparr>"

definition exCluster :: "string \<Rightarrow> string \<Rightarrow> Cluster" where
  "exCluster i st = zeroCluster\<lparr>Cluster.ID := i, Cluster.State := st\<rparr>"

definition exAnswer :: "'a \<Rightarrow> error + 'a response" where
  "exAnswer x = Inr (Response 200 (Decoded x))"

definition exAnswers :: mm_answers where
  "exAnswers = \<lparr>initializeAnswer = Ret None, deleteAnswer = Inr (Response 202 DecodeEOF)\<rparr>"

definition exInstallEnv :: install_env where
  "exInstallEnv =
     \<lparr>answers = exAnswers, fetch = exAnswer (exInstallation ''inst1'' ''creating''),
      fetches = [exAnswer (exInstallation ''inst1'' ''stable'')]\<rparr>"

definition exCreateEnv :: create_env where
  "exCreateEnv =
     \<lparr>createAnswer = exAnswer (exInstallation ''inst1'' ''creation-requested''),
      getAnswer = exAnswer (exInstallation ''inst1'' ''creation-no-compatible-clusters''),
      clusterEnv =
        \<lparr>createClusterAnswer = exAnswer (exCluster ''cluster1'' ''creation-requested''),
         clusterFetch = exAnswer (exCluster ''cluster1'' ''creating''),
         clusterFetches = [exAnswer (exCluster ''cluster1'' ''stable'')]\<rparr>,
      installEnv = exInstallEnv\<rparr>"

definition exUpdateEnv :: "int \<Rightarrow> update_env" where
  "exUpdateEnv status =
     \<lparr>linkPoll =
        \<lparr>combinedStatus =
           Inr [\<lparr>Context = Some ''ci/build'', TargetURL = Some ''https://jenkins/job/7''\<rparr>],
         checkRuns = Inr []\<rparr>,
      linkPolls = [], saveAnswer = None,
      spinmintAnswer =
        Inr (Some \<lparr>InstanceId = ''inst1'', Spinmint.RepoOwner = ''mattermost'',
                   Spinmint.RepoName = ''Mattermost-Server'', Spinmint.Number = 42,
                   CreatedAt = 0\<rparr>),
      waitForBuildAnswer = (Some exPR, True),
      upgradeAnswer = Inr (Response status DecodeEOF),
      upgradeEnv = exInstallEnv\<rparr>"

definition exFailedEnv :: "string \<Rightarrow> install_env" where
  "exFailedEnv st =
     \<lparr>answers = exAnswers, fetch = exAnswer (exInstallation ''inst1'' ''creating''),
      fetches = [exAnswer (exInstallation ''inst1'' st)]\<rparr>"

definition exSpinmint :: Spinmint where
  "exSpinmint =
     \<lparr>InstanceId = ''inst1'', Spinmint.RepoOwner = ''mattermost'',
      Spinmint.RepoName = ''Mattermost-Server'', Spinmint.Number = 42, CreatedAt = 0\<rparr>"

definition exServerPR :: PullRequest where
  "exServerPR =
     exPR\<lparr>RepoName := ''mattermost-server'', BuildStatus := ''pending'',
          BuildLink := ''https://jenkins/job/mp/job/mattermost-server/job/PR-42/7/display/redirect''\<rparr>"

definition exLinkPoll :: link_poll where
  "exLinkPoll =
     \<lparr>combinedStatus =
        Inr [\<lparr>Context = Some ''ci/build'', TargetURL = Some ''https://jenkins/job/7''\<rparr>,
             \<lparr>Context = Some ''ci/circleci'', TargetURL = Some ''https://circleci/42''\<rparr>],
      checkRuns = Inr []\<rparr>"

definition exConfigWithContext :: "string \<Rightarrow> Config" where
  "exConfigWithContext key =
     exConfig\<lparr>GetRepository :=
                (\<lambda>owner name. (Some \<lparr>JenkinsServer = ''jenkins'', BuildStatusContext = key\<rparr>, True))\<rparr>"

definition exNoisyLinkPoll :: link_poll where
  "exNoisyLinkPoll =
     \<lparr>combinedStatus =
        Inr [\<lparr>Context = Some ''license/cla'', TargetURL = Some ''https://cla/42''\<rparr>,
             \<lparr>Context = Some ''ci/build'', TargetURL = Some ''https://jenkins/job/7''\<rparr>],
      checkRuns = Inr [\<lparr>Name = Some ''lint'', HTMLURL = Some ''https://github/checks/1''\<rparr>]\<rparr>"

section \<open>Properties of builds.go\<close>

lemma sliceString_prefix: "sliceString s 0 n = (if n \<le> length s then Ret (take n s) else Panic)"
  by (simp add: sliceString_def)

lemma waitForImage_retry:
  "\<forall>p \<in> set pre. notFoundLookup p \<Longrightarrow>
   waitForImage pr (pre @ rest) = waitForImage (prAfter pr pre) rest"
proof (induction pre arbitrary: pr)
  case Nil
  show ?case by simp
next
  case (Cons p pre)
  from Cons.prems have nf: "notFoundLookup p" and rest: "\<forall>q \<in> set pre. notFoundLookup q"
    by simp_all
  from nf obtain pr' tag err where
    st: "storeGet p = (Some pr', None)" and ver: "getInstallationVersion pr' = Ret tag"
    and md: "manifestDigest p ''mattermost/mattermost-enterprise-edition'' tag = Inl err"
    and nfe: "contains err ''status=404''"
    unfolding notFoundLookup_def lookupOf_def
    by (cases "storeGet p")
       (auto split: option.splits result.splits sum.splits)
  show ?case using st ver md nfe Cons.IH [OF rest, of pr'] by simp
qed

lemma lookupOf_ex: "lookupOf (exImagePoll a) = Some a"
  by (simp add: lookupOf_def exImagePoll_def getInstallationVersion_def sliceString_def exPR_def)

text \<open>
  Claim C6. In \<^verbatim>\<open>waitForImage\<close>, after any run of turns whose registry lookup answers a
  not-found error (one whose message contains \<^verbatim>\<open>status=404\<close>), the loop goes on with the
  next turn; if the context is done after them the result is the time-out error, not
  the not-found error; the first lookup that answers without error returns success; a
  lookup error of any other kind returns at once, wrapped as a fatal error.
\<close>

theorem waitForImage_lookups:
  assumes "\<forall>p \<in> set pre. notFoundLookup p"
  shows "waitForImage pr (pre @ rest) = waitForImage (prAfter pr pre) rest
       \<and> waitForImage pr pre = Ret (Some (prAfter pr pre), Some ''timed out waiting for image to publish'')
       \<and> (\<forall>digest. lookupOf p = Some (Inr digest) \<longrightarrow>
            waitForImage pr (pre @ p # post) = Ret (fst (storeGet p), None))
       \<and> (\<forall>err. lookupOf p = Some (Inl err) \<and> \<not> contains err ''status=404'' \<longrightarrow>
            waitForImage pr (pre @ p # post)
              = Ret (fst (storeGet p), Some (wrap err ''unable to fetch tag from docker registry'')))"
proof -
  have retry: "waitForImage pr (pre @ xs) = waitForImage (prAfter pr pre) xs" for xs
    using assms by (rule waitForImage_retry)
  have timeout: "waitForImage pr pre = Ret (Some (prAfter pr pre), Some ''timed out waiting for image to publish'')"
    using retry [of "[]"] by simp
  have found: "waitForImage pr (pre @ p # post) = Ret (fst (storeGet p), None)"
    if "lookupOf p = Some (Inr digest)" for digest
    using that retry [of "p # post"]
    by (cases "storeGet p") (auto simp: lookupOf_def split: option.splits result.splits)
  have fatal: "waitForImage pr (pre @ p # post)
                 = Ret (fst (storeGet p), Some (wrap err ''unable to fetch tag from docker registry''))"
    if "lookupOf p = Some (Inl err)" "\<not> contains err ''status=404''" for err
    using that retry [of "p # post"]
    by (cases "storeGet p") (auto simp: lookupOf_def split: option.splits result.splits)
  show ?thesis using retry timeout found fatal by blast
qed

theorem waitForImage_lookups_witness:
  "notFoundLookup (exImagePoll (Inl ''http: non-successful response (status=404 body=)''))
   \<and> waitForImage exPR (replicate 3 (exImagePoll (Inl ''http: non-successful response (status=404 body=)''))
                        @ exImagePoll (Inr ''sha256:abc'') # []) = Ret (Some exPR, None)
   \<and> waitForImage exPR (replicate 3 (exImagePoll (Inl ''http: non-successful response (status=404 body=)''))
                        @ exImagePoll (Inl ''connection refused'') # [])
       = Ret (Some exPR, Some ''unable to fetch tag from docker registry: connection refused'')"
proof -
  let ?nf = "exImagePoll (Inl ''http: non-successful response (status=404 body=)'')"
  have nf: "\<forall>p \<in> set (replicate 3 ?nf). notFoundLookup p"
    by (simp add: notFoundLookup_def lookupOf_ex)
  have a: "lookupOf (exImagePoll (Inr ''sha256:abc'')) = Some (Inr ''sha256:abc'')"
    by (rule lookupOf_ex)
  have b: "lookupOf (exImagePoll (Inl ''connection refused'')) = Some (Inl ''connection refused'')"
    by (rule lookupOf_ex)
  have c: "\<not> contains ''connection refused'' ''status=404''" by simp
  from waitForImage_lookups [OF nf, of exPR "[]" "exImagePoll (Inr ''sha256:abc'')" "[]"] a
  have 1: "waitForImage exPR (replicate 3 ?nf @ exImagePoll (Inr ''sha256:abc'') # []) = Ret (Some exPR, None)"
    by (simp add: exImagePoll_def)
  from waitForImage_lookups [OF nf, of exPR "[]" "exImagePoll (Inl ''connection refused'')" "[]"] b c
  have 2: "waitForImage exPR (replicate 3 ?nf @ exImagePoll (Inl ''connection refused'') # [])
       = Ret (Some exPR, Some ''unable to fetch tag from docker registry: connection refused'')"
    by (simp add: exImagePoll_def wrap_def)
  have "notFoundLookup ?nf" using nf by simp
  with 1 2 show ?thesis by blast
qed

text \<open>
  Claim C5, as stated, at a pull request of another repository: the fetched status is
  \<^verbatim>\<open>completed\<close> with conclusion \<^verbatim>\<open>success\<close>, there is no build link, and the turn does not
  return success: the loop goes on and ends with the time-out when the context is done.
\<close>

theorem waitForBuild_status_counterexample:
  "BuildStatus (exSignalPR ''mattermost-server'' ''completed'' ''success'') = ''completed''
   \<and> BuildConclusion (exSignalPR ''mattermost-server'' ''completed'' ''success'') = ''success''
   \<and> waitForBuild ''mattermost-server'' exPR
        [exBuildPoll (exSignalPR ''mattermost-server'' ''completed'' ''success'') (exBuild False ''SUCCESS'')]
     = Ret (Some (exSignalPR ''mattermost-server'' ''completed'' ''success''),
            Some ''timed out waiting for build to finish'')"
  by (simp add: exSignalPR_def exBuildPoll_def exPR_def)

text \<open>
  Claim C5, amended. In a turn of \<^verbatim>\<open>waitForBuild\<close> whose fetched pull request is of the
  repository \<^verbatim>\<open>mattermost-webapp\<close>: status \<^verbatim>\<open>completed\<close> with conclusion \<^verbatim>\<open>success\<close>
  returns success; \<^verbatim>\<open>completed\<close> with any other conclusion returns the failure
  \<^verbatim>\<open>build failed\<close>; any status other than \<^verbatim>\<open>completed\<close> and \<^verbatim>\<open>in_progress\<close> returns a
  failure whatever the later turns hold; \<^verbatim>\<open>in_progress\<close> goes on to the next turn.
\<close>

theorem waitForBuild_webapp_status:
  assumes "prGet p = (Some pr1, None)" and "getUpdateChecks p = (Some pr2, None)"
    and "RepoName pr2 = ''mattermost-webapp''"
  shows "(BuildStatus pr2 = ''completed'' \<and> BuildConclusion pr2 = ''success'' \<longrightarrow>
            waitForBuild serverRepoName pr (p # ps) = Ret (Some pr2, None))
       \<and> (BuildStatus pr2 = ''completed'' \<and> BuildConclusion pr2 \<noteq> ''success'' \<longrightarrow>
            waitForBuild serverRepoName pr (p # ps) = Ret (Some pr2, Some ''build failed''))
       \<and> (BuildStatus pr2 \<noteq> ''completed'' \<and> BuildStatus pr2 \<noteq> ''in_progress'' \<longrightarrow>
            waitForBuild serverRepoName pr (p # ps)
              = Ret (Some pr2, Some (''unknown build status '' @ BuildStatus pr2)))
       \<and> (BuildStatus pr2 = ''in_progress'' \<longrightarrow>
            waitForBuild serverRepoName pr (p # ps) = waitForBuild serverRepoName pr2 ps)"
  using assms by simp

theorem waitForBuild_webapp_status_witness:
  "waitForBuild ''mattermost-server'' exPR
     [exBuildPoll (exSignalPR ''mattermost-webapp'' ''in_progress'' []) (exBuild True []),
      exBuildPoll (exSignalPR ''mattermost-webapp'' ''in_progress'' []) (exBuild True []),
      exBuildPoll (exSignalPR ''mattermost-webapp'' ''completed'' ''success'') (exBuild True [])]
     = Ret (Some (exSignalPR ''mattermost-webapp'' ''completed'' ''success''), None)
   \<and> waitForBuild ''mattermost-server'' exPR
       [exBuildPoll (exSignalPR ''mattermost-webapp'' ''completed'' ''failure'') (exBuild True []),
        exBuildPoll (exSignalPR ''mattermost-webapp'' ''completed'' ''success'') (exBuild True [])]
     = Ret (Some (exSignalPR ''mattermost-webapp'' ''completed'' ''failure''), Some ''build failed'')
   \<and> waitForBuild ''mattermost-server'' exPR
       [exBuildPoll (exSignalPR ''mattermost-webapp'' ''queued'' []) (exBuild True []),
        exBuildPoll (exSignalPR ''mattermost-webapp'' ''completed'' ''success'') (exBuild True [])]
     = Ret (Some (exSignalPR ''mattermost-webapp'' ''queued'' []), Some ''unknown build status queued'')"
proof -
  let ?poll = "\<lambda>status conclusion. exBuildPoll (exSignalPR ''mattermost-webapp'' status conclusion) (exBuild True [])"
  have pg: "prGet (?poll s c) = (Some (exSignalPR ''mattermost-webapp'' s c), None)" for s c
    by (simp add: exBuildPoll_def)
  have uc: "getUpdateChecks (?poll s c) = (Some (exSignalPR ''mattermost-webapp'' s c), None)" for s c
    by (simp add: exBuildPoll_def)
  have rn: "RepoName (exSignalPR ''mattermost-webapp'' s c) = ''mattermost-webapp''" for s c
    by (simp add: exSignalPR_def)
  have st: "BuildStatus (exSignalPR r s c) = s" "BuildConclusion (exSignalPR r s c) = c" for r s c
    by (simp_all add: exSignalPR_def)
  note step = waitForBuild_webapp_status [OF pg uc rn, of _ _ "''mattermost-server''"]
  have a: "waitForBuild ''mattermost-server'' exPR
     [?poll ''in_progress'' [], ?poll ''in_progress'' [], ?poll ''completed'' ''success'']
     = Ret (Some (exSignalPR ''mattermost-webapp'' ''completed'' ''success''), None)"
    using step [of "''in_progress''" "[]"] step [of "''completed''" "''success''"]
    by (simp add: st)
  have b: "waitForBuild ''mattermost-server'' exPR
       [?poll ''completed'' ''failure'', ?poll ''completed'' ''success'']
     = Ret (Some (exSignalPR ''mattermost-webapp'' ''completed'' ''failure''), Some ''build failed'')"
    using step [of "''completed''" "''failure''"] by (simp add: st)
  have c: "waitForBuild ''mattermost-server'' exPR
       [?poll ''queued'' [], ?poll ''completed'' ''success'']
     = Ret (Some (exSignalPR ''mattermost-webapp'' ''queued'' []), Some ''unknown build status queued'')"
    using step [of "''queued''" "[]"] by (simp add: st)
  from a b c show ?thesis by blast
qed

section \<open>Properties of the requests of spinwick.go\<close>

lemma payloads_append: "payloads (s @ t) = payloads s @ payloads t"
  by (induction s rule: payloads.induct) simp_all

lemma fst_emit: "fst (emit es k) = es @ fst k"
  by (simp add: emit_def)

lemma snd_emit: "snd (emit es k) = snd k"
  by (simp add: emit_def)

lemma fst_thenDo: "fst (thenDo m k) = fst m @ (case snd m of Panic \<Rightarrow> [] | Ret x \<Rightarrow> fst (k x))"
  by (cases m; cases "snd m") (auto simp: emit_def)

lemma snd_thenDo: "snd (thenDo m k) = (case snd m of Panic \<Rightarrow> Panic | Ret x \<Rightarrow> snd (k x))"
  by (cases m; cases "snd m") (auto simp: emit_def)

lemma payloads_destroy: "set (payloads (fst (destroyMMInstallation cfg i a))) \<subseteq> {NoBody}"
  by (cases a) (simp_all add: destroyMMInstallation_def)

lemma payloads_waitMM:
  "set (payloads (fst (waitMattermostInstallation cfg pr i up ans f fs))) \<subseteq> {NoBody}"
proof (induction fs arbitrary: f)
  case Nil
  show ?case using payloads_destroy [of cfg _ "deleteAnswer ans"]
    by (auto simp: fst_emit fst_thenDo payloads_append Let_def
             split: sum.splits option.splits result.splits)
next
  case (Cons g gs)
  show ?case using payloads_destroy [of cfg _ "deleteAnswer ans"] Cons.IH [of g]
    by (auto simp: fst_emit fst_thenDo payloads_append Let_def
             split: sum.splits option.splits result.splits)
qed


lemma payloads_waitK8sCluster:
  "set (payloads (fst (waitK8sCluster cfg pr i f fs))) \<subseteq> {NoBody}"
proof (induction fs arbitrary: f)
  case Nil
  show ?case
    by (auto simp: fst_emit payloads_append Let_def split: sum.splits option.splits)
next
  case (Cons g gs)
  show ?case using Cons.IH [of g]
    by (auto simp: fst_emit payloads_append Let_def split: sum.splits option.splits)
qed

declare waitMattermostInstallation.simps [simp del]
declare waitK8sCluster.simps [simp del]

lemma payloads_requestK8s:
  "InstallationBody r \<notin> set (payloads (fst (requestK8sClusterCreation cfg pr env)))"
  using payloads_waitK8sCluster [of cfg pr _ "clusterFetch env" "clusterFetches env"]
  by (auto simp: requestK8sClusterCreation_def fst_emit payloads_append Let_def
           split: sum.splits option.splits)

lemma requests_append: "requests (s @ t) = requests s @ requests t"
  by (simp add: requests_def)

lemma requests_checkBuildLink: "requests (fst (checkBuildLink cfg pr p ps)) = []"
proof (induction ps arbitrary: p)
  case Nil
  show ?case
    by (auto simp: requests_def Let_def split: sum.splits option.splits result.splits)
next
  case (Cons q qs)
  show ?case using Cons.IH [of q]
    by (auto simp: requests_def Let_def split: sum.splits option.splits result.splits)
qed

declare checkBuildLink.simps [simp del]

lemma requests_waitForBuildComplete: "requests (fst (waitForBuildComplete cfg pr a)) = []"
  by (auto simp: waitForBuildComplete_def requests_def Let_def
           split: prod.splits option.splits bool.splits)

text \<open>
  Claim C8. When \<^verbatim>\<open>createSpinWick\<close> issues a request at all, its first request is the
  create-installation request, posted to the provisioning server, whose owner id is the
  lower-cased \<^verbatim>\<open>repoName-pr-number\<close>, whose version is the first seven characters of the
  head commit hash, whose DNS name is the owner id, a dot and the configured base domain,
  and whose affinity is \<^verbatim>\<open>multitenant\<close>; no other create-installation request is in the
  trace. It issues the request whenever the hash has seven characters.
\<close>

theorem createSpinWick_request:
  "(7 \<le> length (Sha pr) \<longrightarrow>
      (\<exists>rest. fst (createSpinWick cfg pr size' env)
         = Request ''POST'' (ProvisionerServer cfg @ ''/api/installations'')
             (InstallationBody
                \<lparr>OwnerID = toLower (RepoName pr @ ''-pr-'' @ sprintd (Number pr)),
                 Version = take 7 (Sha pr),
                 DNS = toLower (RepoName pr @ ''-pr-'' @ sprintd (Number pr)) @ ''.''
                       @ DNSNameTestServer cfg,
                 Size = size', Affinity = ''multitenant''\<rparr>) # rest))
   \<and> (\<forall>r. InstallationBody r \<in> set (payloads (fst (createSpinWick cfg pr size' env))) \<longrightarrow>
          OwnerID r = toLower (RepoName pr @ ''-pr-'' @ sprintd (Number pr))
        \<and> Version r = take 7 (Sha pr)
        \<and> DNS r = OwnerID r @ ''.'' @ DNSNameTestServer cfg
        \<and> Affinity r = ''multitenant'')"
proof -
  let ?id = "toLower (RepoName pr @ ''-pr-'' @ sprintd (Number pr))"
  let ?req = "\<lparr>OwnerID = ?id, Version = take 7 (Sha pr),
               DNS = ?id @ ''.'' @ DNSNameTestServer cfg,
               Size = size', Affinity = ''multitenant''\<rparr>"
  let ?post = "Request ''POST'' (ProvisionerServer cfg @ ''/api/installations'')
                 (InstallationBody ?req)"
  let ?t = "fst (createSpinWick cfg pr size' env)"
  have first: "\<exists>rest. ?t = ?post # rest" if "7 \<le> length (Sha pr)"
    using that
    by (auto simp: createSpinWick_def sliceString_def makePullRequestID_def Let_def fst_emit
                   fst_thenDo
             split: sum.splits option.splits)
  have "set (payloads ?t)
          \<subseteq> {InstallationBody ?req, NoBody}
            \<union> set (payloads (fst (requestK8sClusterCreation cfg pr (clusterEnv env))))"
    using payloads_waitMM [of cfg pr _ False "answers (installEnv env)" "fetch (installEnv env)"
                              "fetches (installEnv env)"]
    by (auto simp: createSpinWick_def sliceString_def makePullRequestID_def Let_def fst_emit
                   fst_thenDo snd_emit payloads_append
             split: sum.splits option.splits result.splits if_splits)
  then have only: "r = ?req" if "InstallationBody r \<in> set (payloads ?t)" for r
    using that payloads_requestK8s [of r cfg pr "clusterEnv env"] by auto
  have fields: "OwnerID r = ?id \<and> Version r = take 7 (Sha pr)
        \<and> DNS r = OwnerID r @ ''.'' @ DNSNameTestServer cfg \<and> Affinity r = ''multitenant''"
    if "InstallationBody r \<in> set (payloads ?t)" for r
    using only [OF that] by simp
  from first fields show ?thesis by blast
qed


theorem createSpinWick_request_witness:
  "hd (fst (createSpinWick exConfig exPR ''miniSingleton'' exCreateEnv))
     = Request ''POST'' ''https://provisioner/api/installations''
         (InstallationBody
            \<lparr>OwnerID = ''mattermost-server-pr-42'', Version = ''0123456'',
             DNS = ''mattermost-server-pr-42.test.example.com'',
             Size = ''miniSingleton'', Affinity = ''multitenant''\<rparr>)"
proof -
  have len: "7 \<le> length (Sha exPR)" by (simp add: exPR_def)
  have low: "toLower (RepoName exPR @ ''-pr-'' @ sprintd (Number exPR)) = ''mattermost-server-pr-42''"
    by code_simp
  from createSpinWick_request [of exPR exConfig "''miniSingleton''" exCreateEnv] len
  obtain rest where "fst (createSpinWick exConfig exPR ''miniSingleton'' exCreateEnv)
         = Request ''POST'' (ProvisionerServer exConfig @ ''/api/installations'')
             (InstallationBody
                \<lparr>OwnerID = toLower (RepoName exPR @ ''-pr-'' @ sprintd (Number exPR)),
                 Version = take 7 (Sha exPR),
                 DNS = toLower (RepoName exPR @ ''-pr-'' @ sprintd (Number exPR)) @ ''.''
                       @ DNSNameTestServer exConfig,
                 Size = ''miniSingleton'', Affinity = ''multitenant''\<rparr>) # rest"
    by blast
  then show ?thesis unfolding low by (simp add: exPR_def exConfig_def)
qed

lemma reachesUpgradeD:
  assumes "reachesUpgrade cfg pr env"
  obtains t1 link sp t2 where
    "checkBuildLink cfg pr (linkPoll env) (linkPolls env) = (t1, Ret (Inr link))"
    "link \<noteq> []" "spinmintAnswer env = Inr (Some sp)"
    "waitForBuildComplete cfg (pr\<lparr>BuildLink := link\<rparr>) (waitForBuildAnswer env) = (t2, Ret None)"
    "\<exists>label \<in> set (Labels pr). label = SetupSpinWick cfg \<or> label = SetupSpinWickHA cfg"
    "requests t1 = []" "requests t2 = []"
proof -
  obtain t1 r1 where c: "checkBuildLink cfg pr (linkPoll env) (linkPolls env) = (t1, r1)"
    by (cases "checkBuildLink cfg pr (linkPoll env) (linkPolls env)")
  with assms obtain link where r1: "r1 = Ret (Inr link)" and link: "link \<noteq> []"
    by (auto simp: reachesUpgrade_def split: result.splits sum.splits)
  with assms c obtain sp where sp: "spinmintAnswer env = Inr (Some sp)"
    by (auto simp: reachesUpgrade_def split: result.splits sum.splits option.splits)
  obtain t2 r2 where
    w: "waitForBuildComplete cfg (pr\<lparr>BuildLink := link\<rparr>) (waitForBuildAnswer env) = (t2, r2)"
    by (cases "waitForBuildComplete cfg (pr\<lparr>BuildLink := link\<rparr>) (waitForBuildAnswer env)")
  with assms c r1 sp have r2: "r2 = Ret None"
    by (auto simp: reachesUpgrade_def)
  have lab: "\<exists>label \<in> set (Labels pr). label = SetupSpinWick cfg \<or> label = SetupSpinWickHA cfg"
    using assms by (simp add: reachesUpgrade_def)
  have q1: "requests t1 = []" using requests_checkBuildLink [of cfg pr "linkPoll env" "linkPolls env"] c
    by simp
  have q2: "requests t2 = []"
    using requests_waitForBuildComplete [of cfg "pr\<lparr>BuildLink := link\<rparr>" "waitForBuildAnswer env"] w
    by simp
  show thesis using that [OF _ link sp _ lab q1 q2] c r1 w r2 by simp
qed


lemma requests_Cons:
  "requests (e # t) = (if isRequest e then e # requests t else requests t)"
  by (simp add: requests_def)

lemma requests_Nil: "requests [] = []"
  by (simp add: requests_def)

text \<open>
  Claim C10. For a head commit hash of at least seven characters,
  \<^verbatim>\<open>getInstallationVersion\<close> returns its first seven characters, and the slices of
  \<^verbatim>\<open>createSpinWick\<close> and \<^verbatim>\<open>updateSpinWick\<close> are in bounds: the create-installation
  request and the upgrade request carry those seven characters. For a shorter hash the
  slice is out of range: \<^verbatim>\<open>getInstallationVersion\<close> panics, \<^verbatim>\<open>createSpinWick\<close> panics
  before any request, and a run of \<^verbatim>\<open>updateSpinWick\<close> that reaches the upgrade panics
  without a request.
\<close>

theorem sha_slice_defined:
  "(7 \<le> length (Sha pr) \<longrightarrow>
      getInstallationVersion pr = Ret (take 7 (Sha pr))
    \<and> length (take 7 (Sha pr)) = 7
    \<and> (\<exists>r rest. fst (createSpinWick cfg pr size' cenv)
          = Request ''POST'' (ProvisionerServer cfg @ ''/api/installations'') (InstallationBody r)
            # rest
          \<and> Version r = take 7 (Sha pr))
    \<and> (reachesUpgrade cfg pr uenv \<longrightarrow>
          (\<exists>url rest. requests (fst (updateSpinWick cfg pr uenv))
             = Request ''PUT'' url (upgradePayload (take 7 (Sha pr))) # rest)))
   \<and> (length (Sha pr) < 7 \<longrightarrow>
      getInstallationVersion pr = Panic
    \<and> createSpinWick cfg pr size' cenv = ([], Panic)
    \<and> (reachesUpgrade cfg pr uenv \<longrightarrow>
          snd (updateSpinWick cfg pr uenv) = Panic
        \<and> requests (fst (updateSpinWick cfg pr uenv)) = []))"
proof -
  have long_version: "getInstallationVersion pr = Ret (take 7 (Sha pr))"
    and long_length: "length (take 7 (Sha pr)) = 7"
    if "7 \<le> length (Sha pr)"
    using that by (simp_all add: getInstallationVersion_def sliceString_def)
  have long_create: "\<exists>r rest. fst (createSpinWick cfg pr size' cenv)
          = Request ''POST'' (ProvisionerServer cfg @ ''/api/installations'') (InstallationBody r)
            # rest
          \<and> Version r = take 7 (Sha pr)"
    if "7 \<le> length (Sha pr)"
    using that
    by (auto simp: createSpinWick_def sliceString_def Let_def fst_emit fst_thenDo
             split: sum.splits option.splits)
  have long_update: "\<exists>url rest. requests (fst (updateSpinWick cfg pr uenv))
             = Request ''PUT'' url (upgradePayload (take 7 (Sha pr))) # rest"
    if "7 \<le> length (Sha pr)" and r: "reachesUpgrade cfg pr uenv"
  proof -
    from r obtain t1 link sp t2 where
      "checkBuildLink cfg pr (linkPoll uenv) (linkPolls uenv) = (t1, Ret (Inr link))"
      "link \<noteq> []" "spinmintAnswer uenv = Inr (Some sp)"
      "waitForBuildComplete cfg (pr\<lparr>BuildLink := link\<rparr>) (waitForBuildAnswer uenv) = (t2, Ret None)"
      "\<exists>label \<in> set (Labels pr). label = SetupSpinWick cfg \<or> label = SetupSpinWickHA cfg"
      "requests t1 = []" "requests t2 = []"
      by (rule reachesUpgradeD)
    with that(1) show ?thesis
      by (auto simp: updateSpinWick_def Let_def fst_emit fst_thenDo snd_emit requests_append
                     requests_Cons requests_Nil sliceString_def upgradePayload_def
               split: sum.splits option.splits)
  qed
  have short_version: "getInstallationVersion pr = Panic"
    and short_create: "createSpinWick cfg pr size' cenv = ([], Panic)"
    if "length (Sha pr) < 7"
    using that by (simp_all add: getInstallationVersion_def createSpinWick_def sliceString_def)
  have short_update: "snd (updateSpinWick cfg pr uenv) = Panic
        \<and> requests (fst (updateSpinWick cfg pr uenv)) = []"
    if "length (Sha pr) < 7" and r: "reachesUpgrade cfg pr uenv"
  proof -
    from r obtain t1 link sp t2 where
      "checkBuildLink cfg pr (linkPoll uenv) (linkPolls uenv) = (t1, Ret (Inr link))"
      "link \<noteq> []" "spinmintAnswer uenv = Inr (Some sp)"
      "waitForBuildComplete cfg (pr\<lparr>BuildLink := link\<rparr>) (waitForBuildAnswer uenv) = (t2, Ret None)"
      "\<exists>label \<in> set (Labels pr). label = SetupSpinWick cfg \<or> label = SetupSpinWickHA cfg"
      "requests t1 = []" "requests t2 = []"
      by (rule reachesUpgradeD)
    with that(1) show ?thesis
      by (auto simp: updateSpinWick_def Let_def fst_emit fst_thenDo snd_emit snd_thenDo
                     requests_append requests_Cons requests_Nil sliceString_def
               split: sum.splits option.splits)
  qed
  from long_version long_length long_create long_update short_version short_create short_update
  show ?thesis by blast
qed


lemma payloads_requests: "payloads (requests t) = payloads t"
  by (induction t rule: payloads.induct) (simp_all add: requests_def)

lemma reachesUpgrade_ex: "reachesUpgrade exConfig (exPR\<lparr>Sha := sha\<rparr>) (exUpdateEnv status)"
  by (simp add: reachesUpgrade_def exConfig_def exPR_def exUpdateEnv_def checkBuildLink.simps
                waitForBuildComplete_def)

theorem sha_slice_defined_witness:
  "getInstallationVersion exPR = Ret ''0123456''
   \<and> hd (payloads (fst (updateSpinWick exConfig exPR (exUpdateEnv 202)))) = upgradePayload ''0123456''
   \<and> getInstallationVersion (exPR\<lparr>Sha := ''abc''\<rparr>) = Panic
   \<and> createSpinWick exConfig (exPR\<lparr>Sha := ''abc''\<rparr>) ''miniSingleton'' exCreateEnv = ([], Panic)
   \<and> snd (updateSpinWick exConfig (exPR\<lparr>Sha := ''abc''\<rparr>) (exUpdateEnv 202)) = Panic"
proof -
  have long: "7 \<le> length (Sha exPR)" "take 7 (Sha exPR) = ''0123456''"
    by (simp_all add: exPR_def)
  have short: "length (Sha (exPR\<lparr>Sha := ''abc''\<rparr>)) < 7" by simp
  have up: "reachesUpgrade exConfig exPR (exUpdateEnv 202)"
    using reachesUpgrade_ex [of "Sha exPR" 202] by simp
  note l = sha_slice_defined [of exPR exConfig "''miniSingleton''" exCreateEnv "exUpdateEnv 202"]
  note s = sha_slice_defined [of "exPR\<lparr>Sha := ''abc''\<rparr>" exConfig "''miniSingleton''" exCreateEnv
                                 "exUpdateEnv 202"]
  from l long up obtain url rest where
    "requests (fst (updateSpinWick exConfig exPR (exUpdateEnv 202)))
       = Request ''PUT'' url (upgradePayload ''0123456'') # rest"
    by auto
  then have "payloads (requests (fst (updateSpinWick exConfig exPR (exUpdateEnv 202))))
               = upgradePayload ''0123456'' # payloads rest"
    by simp
  then have a: "hd (payloads (fst (updateSpinWick exConfig exPR (exUpdateEnv 202))))
                  = upgradePayload ''0123456''"
    by (simp add: payloads_requests)
  from l long have b: "getInstallationVersion exPR = Ret ''0123456''" by simp
  from s short reachesUpgrade_ex [of "''abc''" 202]
  have c: "getInstallationVersion (exPR\<lparr>Sha := ''abc''\<rparr>) = Panic
   \<and> createSpinWick exConfig (exPR\<lparr>Sha := ''abc''\<rparr>) ''miniSingleton'' exCreateEnv = ([], Panic)
   \<and> snd (updateSpinWick exConfig (exPR\<lparr>Sha := ''abc''\<rparr>) (exUpdateEnv 202)) = Panic"
    by blast
  from a b c show ?thesis by blast
qed

section \<open>Properties of the installation polling\<close>

lemma waitMM_first:
  "\<exists>rest. fst (waitMattermostInstallation cfg pr i up ans f fs) = getInstallation cfg i # rest"
  by (cases fs)
     (auto simp: waitMattermostInstallation.simps getInstallation_def fst_emit Let_def
           split: sum.splits option.splits result.splits)

lemma waitMM_pending:
  "pending f \<Longrightarrow>
   waitMattermostInstallation cfg pr i up ans f (g # gs)
     = emit [getInstallation cfg i] (waitMattermostInstallation cfg pr i up ans g gs)"
  by (auto simp: waitMattermostInstallation.simps [of _ _ _ _ _ f] pending_def observed_def
                 getInstallation_def Let_def
           split: sum.splits option.splits)

lemma emit_emit: "emit s (emit t k) = emit (s @ t) k"
  by (simp add: emit_def)

lemma emit_Nil: "emit [] k = k"
  by (simp add: emit_def)

lemma waitMM_prefix:
  "f # fs = pre @ g # post \<Longrightarrow> \<forall>h \<in> set pre. pending h \<Longrightarrow>
   waitMattermostInstallation cfg pr i up ans f fs
     = emit (replicate (length pre) (getInstallation cfg i))
         (waitMattermostInstallation cfg pr i up ans g post)"
proof (induction pre arbitrary: f fs)
  case Nil
  then show ?case by (simp add: emit_Nil)
next
  case (Cons h pre)
  from Cons.prems have f: "f = h" and fs: "fs = pre @ g # post" and pf: "pending f"
    and rest: "\<forall>h \<in> set pre. pending h"
    by simp_all
  show ?case
  proof (cases pre)
    case Nil
    with fs pf show ?thesis by (simp add: waitMM_pending)
  next
    case (Cons p ps)
    with fs have "fs = p # (ps @ g # post)" by simp
    moreover have "waitMattermostInstallation cfg pr i up ans p (ps @ g # post)
       = emit (replicate (length pre) (getInstallation cfg i))
           (waitMattermostInstallation cfg pr i up ans g post)"
      using Cons.IH [of p "ps @ g # post"] rest Cons by simp
    ultimately show ?thesis using pf
      by (simp add: waitMM_pending emit_emit)
  qed
qed

lemma waitMM_failed:
  "observed g = Some inst \<Longrightarrow> Installation.State inst = ''creation-failed'' \<Longrightarrow>
   waitMattermostInstallation cfg pr i up ans g post
     = emit [getInstallation cfg i,
             Comment (RepoOwner pr) (RepoName pr) (Number pr)
               ''Failed to create mattermost installation.'']
         (thenDo (destroyMMInstallation cfg (Installation.ID inst) (deleteAnswer ans))
            (\<lambda>u. ([], Ret (Some ''error creating mattermost installation''))))"
  by (auto simp: waitMattermostInstallation.simps [of _ _ _ _ _ g] observed_def
                 getInstallation_def Let_def
           split: sum.splits option.splits)

lemma waitMM_deadline:
  "observed g = Some inst \<Longrightarrow> pending g \<Longrightarrow>
   waitMattermostInstallation cfg pr i up ans g []
     = emit [getInstallation cfg i]
         (thenDo (destroyMMInstallation cfg (Installation.ID inst) (deleteAnswer ans))
            (\<lambda>u. ([Comment (RepoOwner pr) (RepoName pr) (Number pr)
                      ''Timed out waiting for the mattermost installation. Please check the logs.''],
                  Ret (Some ''timed out waiting for the mattermost installation complete. requesting the deletion''))))"
  by (auto simp: waitMattermostInstallation.simps [of _ _ _ _ _ g] observed_def pending_def
                 getInstallation_def Let_def
           split: sum.splits option.splits)

lemma destroy_answered:
  "destroyMMInstallation cfg i (Inr r) = ([deleteInstallation cfg i], Ret ())"
  by (simp add: destroyMMInstallation_def deleteInstallation_def)

lemma destroy_first:
  "\<exists>rest. fst (destroyMMInstallation cfg i a) = deleteInstallation cfg i # rest"
  by (cases a) (simp_all add: destroyMMInstallation_def deleteInstallation_def)

text \<open>
  Claim C1, as stated, at two upgrade runs: \<^verbatim>\<open>updateSpinWick\<close> polls an installation that
  is reported \<^verbatim>\<open>creation-failed\<close>, or that is still \<^verbatim>\<open>creating\<close> when the context is done,
  and in both runs a DELETE request for the installation is issued.
\<close>

theorem upgrade_deletes_counterexample:
  "deleteInstallation exConfig ''inst1''
     \<in> set (fst (updateSpinWick exConfig exPR
                   ((exUpdateEnv 202)\<lparr>upgradeEnv := exFailedEnv ''creation-failed''\<rparr>)))
   \<and> deleteInstallation exConfig ''inst1''
     \<in> set (fst (updateSpinWick exConfig exPR
                   ((exUpdateEnv 202)\<lparr>upgradeEnv := exFailedEnv ''creating''\<rparr>)))"
  by (simp add: updateSpinWick_def exUpdateEnv_def exFailedEnv_def exConfig_def exPR_def
                checkBuildLink.simps waitForBuildComplete_def sliceString_def
                waitMattermostInstallation.simps exAnswer_def exInstallation_def exAnswers_def
                zeroInstallation_def destroyMMInstallation_def deleteInstallation_def emit_def Let_def)

text \<open>
  Claim C1, amended. In every run of \<^verbatim>\<open>waitMattermostInstallation\<close>, for an upgrade and for
  a fresh create alike: when, after turns that observe neither \<^verbatim>\<open>stable\<close> nor
  \<^verbatim>\<open>creation-failed\<close>, a turn observes \<^verbatim>\<open>creation-failed\<close>, or the context is done after a
  turn that observes neither, a DELETE request is issued for the installation id that
  this last turn read; and when that request is answered, it is the last request of the
  run and the run returns the error (creation failed, or timed out).
\<close>

theorem failure_deletes_in_both_flows:
  assumes "f # fs = pre @ g # post" and "\<forall>h \<in> set pre. pending h"
    and "observed g = Some inst"
  shows "(Installation.State inst = ''creation-failed'' \<longrightarrow>
            deleteInstallation cfg (Installation.ID inst)
              \<in> set (fst (waitMattermostInstallation cfg pr i upgrade ans f fs))
          \<and> (\<forall>r. deleteAnswer ans = Inr r \<longrightarrow>
                last (requests (fst (waitMattermostInstallation cfg pr i upgrade ans f fs)))
                  = deleteInstallation cfg (Installation.ID inst)
              \<and> snd (waitMattermostInstallation cfg pr i upgrade ans f fs)
                  = Ret (Some ''error creating mattermost installation'')))
       \<and> (pending g \<and> post = [] \<longrightarrow>
            deleteInstallation cfg (Installation.ID inst)
              \<in> set (fst (waitMattermostInstallation cfg pr i upgrade ans f fs))
          \<and> (\<forall>r. deleteAnswer ans = Inr r \<longrightarrow>
                last (requests (fst (waitMattermostInstallation cfg pr i upgrade ans f fs)))
                  = deleteInstallation cfg (Installation.ID inst)
              \<and> snd (waitMattermostInstallation cfg pr i upgrade ans f fs)
                  = Ret (Some ''timed out waiting for the mattermost installation complete. requesting the deletion'')))"
proof -
  let ?run = "waitMattermostInstallation cfg pr i upgrade ans f fs"
  let ?del = "deleteInstallation cfg (Installation.ID inst)"
  have run: "?run = emit (replicate (length pre) (getInstallation cfg i))
                      (waitMattermostInstallation cfg pr i upgrade ans g post)"
    using assms(1,2) by (rule waitMM_prefix)
  obtain rest where d: "fst (destroyMMInstallation cfg (Installation.ID inst) (deleteAnswer ans))
                          = ?del # rest"
    using destroy_first by blast
  have failed_in: "?del \<in> set (fst ?run)" if "Installation.State inst = ''creation-failed''"
    using d by (simp add: run waitMM_failed [OF assms(3) that] fst_emit fst_thenDo)
  have failed_ret: "last (requests (fst ?run)) = ?del
                  \<and> snd ?run = Ret (Some ''error creating mattermost installation'')"
    if "Installation.State inst = ''creation-failed''" "deleteAnswer ans = Inr r" for r
    by (simp add: run waitMM_failed [OF assms(3) that(1)] that(2) destroy_answered fst_emit
                  snd_emit emit_def requests_def deleteInstallation_def)
  have late_in: "?del \<in> set (fst ?run)" if "pending g" "post = []"
    using d by (simp add: run that(2) waitMM_deadline [OF assms(3) that(1)] fst_emit fst_thenDo)
  have late_ret: "last (requests (fst ?run)) = ?del
                  \<and> snd ?run = Ret (Some ''timed out waiting for the mattermost installation complete. requesting the deletion'')"
    if "pending g" "post = []" "deleteAnswer ans = Inr r" for r
    by (simp add: run that(2) waitMM_deadline [OF assms(3) that(1)] that(3) destroy_answered
                  fst_emit snd_emit emit_def requests_def deleteInstallation_def)
  from failed_in failed_ret late_in late_ret show ?thesis by blast
qed


lemma observed_ex: "observed (exAnswer inst) = Some inst"
  by (simp add: observed_def exAnswer_def)

lemma pending_ex: "pending (exAnswer (exInstallation i ''creating''))"
  by (simp add: pending_def observed_ex exInstallation_def)

theorem failure_deletes_in_both_flows_witness:
  "deleteInstallation exConfig ''inst1''
     \<in> set (fst (waitMattermostInstallation exConfig exPR ''inst1'' True exAnswers
                   (exAnswer (exInstallation ''inst1'' ''creating''))
                   [exAnswer (exInstallation ''inst1'' ''creation-failed'')]))
   \<and> snd (waitMattermostInstallation exConfig exPR ''inst1'' True exAnswers
            (exAnswer (exInstallation ''inst1'' ''creating''))
            [exAnswer (exInstallation ''inst1'' ''creation-failed'')])
       = Ret (Some ''error creating mattermost installation'')
   \<and> deleteInstallation exConfig ''inst1''
     \<in> set (fst (waitMattermostInstallation exConfig exPR ''inst1'' False exAnswers
                   (exAnswer (exInstallation ''inst1'' ''creating''))
                   [exAnswer (exInstallation ''inst1'' ''creating'')]))
   \<and> snd (waitMattermostInstallation exConfig exPR ''inst1'' False exAnswers
            (exAnswer (exInstallation ''inst1'' ''creating''))
            [exAnswer (exInstallation ''inst1'' ''creating'')])
       = Ret (Some ''timed out waiting for the mattermost installation complete. requesting the deletion'')"
proof -
  let ?c = "exAnswer (exInstallation ''inst1'' ''creating'')"
  have split: "?c # [exAnswer (exInstallation ''inst1'' st)]
                 = [?c] @ exAnswer (exInstallation ''inst1'' st) # []" for st
    by simp
  have pre: "\<forall>h \<in> set [?c]. pending h" by (simp add: pending_ex)
  have del: "deleteAnswer exAnswers = Inr (Response 202 DecodeEOF)" by (simp add: exAnswers_def)
  have id: "Installation.ID (exInstallation ''inst1'' st) = ''inst1''"
    and st: "Installation.State (exInstallation ''inst1'' st) = st" for st
    by (simp_all add: exInstallation_def)
  from failure_deletes_in_both_flows [OF split pre observed_ex, of "''creation-failed''" exConfig
                                        exPR "''inst1''" True exAnswers] del
  have a: "deleteInstallation exConfig ''inst1''
     \<in> set (fst (waitMattermostInstallation exConfig exPR ''inst1'' True exAnswers ?c
                   [exAnswer (exInstallation ''inst1'' ''creation-failed'')]))
   \<and> snd (waitMattermostInstallation exConfig exPR ''inst1'' True exAnswers ?c
            [exAnswer (exInstallation ''inst1'' ''creation-failed'')])
       = Ret (Some ''error creating mattermost installation'')"
    by (simp add: id st)
  from failure_deletes_in_both_flows [OF split pre observed_ex, of "''creating''" exConfig
                                        exPR "''inst1''" False exAnswers] del pending_ex
  have b: "deleteInstallation exConfig ''inst1''
     \<in> set (fst (waitMattermostInstallation exConfig exPR ''inst1'' False exAnswers ?c [?c]))
   \<and> snd (waitMattermostInstallation exConfig exPR ''inst1'' False exAnswers ?c [?c])
       = Ret (Some ''timed out waiting for the mattermost installation complete. requesting the deletion'')"
    by (simp add: id st)
  from a b show ?thesis by blast
qed

lemma waitMM_decode_error:
  "decodeFailed (body resp) = Some err \<Longrightarrow>
   waitMattermostInstallation cfg pr i up ans (Inr resp) fs
     = ([getInstallation cfg i, LogError ''Error decoding installation''],
        Ret (Some ''Error decoding installation''))"
  by (simp add: waitMattermostInstallation.simps getInstallation_def)

text \<open>
  Claim C2 at a run of \<^verbatim>\<open>waitK8sCluster\<close>: the body of the first answer fails to decode
  (not with \<^verbatim>\<open>io.EOF\<close>); the failure is logged, the loop polls again, and the run returns
  no error when the second answer reports \<^verbatim>\<open>stable\<close>.
\<close>

theorem waitK8sCluster_decode_error_polls_on:
  "waitK8sCluster exConfig exPR ''cluster1''
     (Inr (Response 200 (DecodeErr ''invalid character'' zeroCluster)))
     [exAnswer (exCluster ''cluster1'' ''stable'')]
   = ([Request ''GET'' ''https://provisioner/api/cluster/cluster1'' NoBody,
       LogError ''Error decoding cluster response'',
       Request ''GET'' ''https://provisioner/api/cluster/cluster1'' NoBody,
       Comment ''mattermost'' ''Mattermost-Server'' 42
         ''Kubernetes cluster created. Now will deploy Mattermost... Hang on!''],
      Ret None)"
  by (simp add: waitK8sCluster.simps exConfig_def exPR_def exAnswer_def exCluster_def
                zeroCluster_def emit_def Let_def)

lemma destroySpinWick_answered:
  "destroySpinWick cfg pr i (Inr r) store
     = (([deleteInstallation cfg i, RemoveSpinmintInfo i], Ret ()), removeSpinmintInfo i store)"
  by (simp add: destroySpinWick_def destroy_answered)

lemma removeSpinmintInfo_absent:
  "\<forall>r \<in> set (removeSpinmintInfo i store). InstanceId r \<noteq> i"
  by (simp add: removeSpinmintInfo_def)

lemma removeSpinmintInfo_twice:
  "removeSpinmintInfo i (removeSpinmintInfo i store) = removeSpinmintInfo i store"
  by (simp add: removeSpinmintInfo_def)

text \<open>
  Claim C4 at a run of \<^verbatim>\<open>destroySpinWick\<close> whose DELETE request fails in the transport:
  the error is logged, then the \<^verbatim>\<open>nil\<close> response is dereferenced; the run panics and
  the persisted record is still in the store.
\<close>

theorem destroySpinWick_failed_request:
  "destroySpinWick exConfig exPR ''inst1'' (Inl ''dial tcp: connection refused'') [exSpinmint]
   = (([Request ''DELETE'' ''https://provisioner/api/installation/inst1'' NoBody,
        LogError ''Error deleting the installation''],
       Panic),
      [exSpinmint])"
  by (simp add: destroySpinWick_def destroyMMInstallation_def exConfig_def)

section \<open>Properties of the create and update flows\<close>

lemma initializations_append: "initializations (s @ t) = initializations s + initializations t"
  by (induction s rule: initializations.induct) simp_all

lemma initializations_replicate_get:
  "initializations (replicate n (getInstallation cfg i)) = 0"
  by (induction n) (simp_all add: getInstallation_def)

lemma initializations_destroy: "initializations (fst (destroyMMInstallation cfg i a)) = 0"
  by (cases a) (simp_all add: destroyMMInstallation_def)

lemma initializations_waitK8sCluster: "initializations (fst (waitK8sCluster cfg pr i f fs)) = 0"
proof (induction fs arbitrary: f)
  case Nil
  show ?case
    by (auto simp: waitK8sCluster.simps fst_emit initializations_append Let_def
             split: sum.splits option.splits)
next
  case (Cons g gs)
  show ?case using Cons.IH [of g]
    by (auto simp: waitK8sCluster.simps [of _ _ _ f] fst_emit initializations_append Let_def
             split: sum.splits option.splits)
qed

lemma initializations_requestK8s:
  "initializations (fst (requestK8sClusterCreation cfg pr env)) = 0"
  by (auto simp: requestK8sClusterCreation_def fst_emit initializations_append Let_def
                 initializations_waitK8sCluster
           split: sum.splits option.splits)

lemma initializations_checkBuildLink: "initializations (fst (checkBuildLink cfg pr p ps)) = 0"
proof (induction ps arbitrary: p)
  case Nil
  show ?case
    by (auto simp: checkBuildLink.simps Let_def split: sum.splits option.splits result.splits)
next
  case (Cons q qs)
  show ?case using Cons.IH [of q]
    by (auto simp: checkBuildLink.simps [of _ _ p] Let_def
             split: sum.splits option.splits result.splits)
qed

lemma initializations_waitForBuildComplete:
  "initializations (fst (waitForBuildComplete cfg pr a)) = 0"
  by (auto simp: waitForBuildComplete_def Let_def split: prod.splits option.splits bool.splits)

lemma initializations_upgrade:
  "initializations (fst (waitMattermostInstallation cfg pr i True ans f fs)) = 0"
proof (induction fs arbitrary: f)
  case Nil
  show ?case using initializations_destroy [of cfg _ "deleteAnswer ans"]
    by (auto simp: waitMattermostInstallation.simps fst_emit fst_thenDo initializations_append
                   Let_def
             split: sum.splits option.splits result.splits)
next
  case (Cons g gs)
  show ?case using initializations_destroy [of cfg _ "deleteAnswer ans"] Cons.IH [of g]
    by (auto simp: waitMattermostInstallation.simps [of _ _ _ _ _ f] fst_emit fst_thenDo
                   initializations_append Let_def
             split: sum.splits option.splits result.splits)
qed

lemma initializations_stable:
  "observed g = Some inst \<Longrightarrow> Installation.State inst = ''stable'' \<Longrightarrow>
   initializations (fst (waitMattermostInstallation cfg pr i False ans g post)) = 1"
  using initializations_destroy [of cfg "Installation.ID inst" "deleteAnswer ans"]
  by (auto simp: waitMattermostInstallation.simps [of _ _ _ _ _ g] observed_def fst_emit
                 fst_thenDo initializations_append Let_def
           split: sum.splits option.splits result.splits)

lemma initializations_updateSpinWick:
  "initializations (fst (updateSpinWick cfg pr env)) = 0"
proof -
  have w: "initializations (fst (waitMattermostInstallation cfg pr' i True ans f fs)) = 0"
    for pr' i ans f fs
    by (rule initializations_upgrade)
  have b: "initializations (fst (waitForBuildComplete cfg pr' a)) = 0" for pr' a
    by (rule initializations_waitForBuildComplete)
  have l: "initializations (fst (checkBuildLink cfg pr (linkPoll env) (linkPolls env))) = 0"
    by (rule initializations_checkBuildLink)
  show ?thesis using l
    by (auto simp: updateSpinWick_def fst_emit fst_thenDo initializations_append Let_def w b
             split: sum.splits option.splits result.splits)
qed


lemma initializations_prefix:
  assumes "f # fs = pre @ g # post" and "\<forall>h \<in> set pre. pending h"
    and "observed g = Some inst" and "Installation.State inst = ''stable''"
  shows "initializations (fst (waitMattermostInstallation cfg pr i False ans f fs)) = 1"
  using initializations_stable [OF assms(3,4), of cfg pr i ans post]
  by (simp add: waitMM_prefix [OF assms(1,2)] fst_emit initializations_append
                initializations_replicate_get)

lemma createSpinWick_needsCluster:
  assumes "7 \<le> length (Sha pr)" and "needsCluster env"
  shows "\<exists>url request. fst (createSpinWick cfg pr size' env)
           = [Request ''POST'' url request, getInstallation cfg (createdID env)]
             @ fst (requestK8sClusterCreation cfg pr (clusterEnv env))
             @ (if snd (requestK8sClusterCreation cfg pr (clusterEnv env)) = Ret None
                then fst (waitMattermostInstallation cfg pr (createdID env) False
                            (answers (installEnv env)) (fetch (installEnv env))
                            (fetches (installEnv env)))
                else [])"
proof -
  from assms(2) obtain created resp where
    c: "createAnswer env = Inr created" "decodeFailed (body created) = None"
    and g: "getAnswer env = Inr resp" "decodeFailed (body resp) = None"
    and st: "Installation.State
               (decodedValue (decodedValue zeroInstallation (body created)) (body resp))
             = ''creation-no-compatible-clusters''"
    by (auto simp: needsCluster_def split: sum.splits)
  obtain t r where k: "requestK8sClusterCreation cfg pr (clusterEnv env) = (t, r)"
    by (cases "requestK8sClusterCreation cfg pr (clusterEnv env)")
  show ?thesis using assms(1) c g st k
    by (cases r)
       (auto simp: createSpinWick_def sliceString_def createdID_def getInstallation_def Let_def
                   emit_def fst_thenDo
             split: option.splits result.splits)
qed

text \<open>
  Claim C7. In a run of \<^verbatim>\<open>createSpinWick\<close> whose fetch after the create request reports
  \<^verbatim>\<open>creation-no-compatible-clusters\<close>, the whole of \<^verbatim>\<open>requestK8sClusterCreation\<close>, which
  starts with the notice and the request that creates the cluster and waits for the
  cluster, comes after that fetch and before the polling of the installation, which
  takes place only if the cluster wait returned no error; when that polling then
  observes \<^verbatim>\<open>stable\<close>, after turns that observe neither \<^verbatim>\<open>stable\<close> nor \<^verbatim>\<open>creation-failed\<close>,
  \<^verbatim>\<open>initializeMattermostTestServer\<close> is called exactly once in the run. No run of
  \<^verbatim>\<open>waitMattermostInstallation\<close> for an upgrade and no run of \<^verbatim>\<open>updateSpinWick\<close> calls it.
\<close>

theorem cluster_then_bootstrap_once:
  assumes "7 \<le> length (Sha pr)" and "needsCluster env"
  shows "(\<exists>url request. fst (createSpinWick cfg pr size' env)
           = [Request ''POST'' url request, getInstallation cfg (createdID env)]
             @ fst (requestK8sClusterCreation cfg pr (clusterEnv env))
             @ (if snd (requestK8sClusterCreation cfg pr (clusterEnv env)) = Ret None
                then fst (waitMattermostInstallation cfg pr (createdID env) False
                            (answers (installEnv env)) (fetch (installEnv env))
                            (fetches (installEnv env)))
                else []))
       \<and> (\<exists>rest. fst (requestK8sClusterCreation cfg pr (clusterEnv env))
           = [Comment (RepoOwner pr) (RepoName pr) (Number pr)
                ''Please wait while a new kubernetes cluster is created for your SpinWick'',
              Request ''POST'' (ProvisionerServer cfg @ ''/api/clusters'')
                (ClusterBody \<lparr>CreateClusterRequest.Provider = [],
                              CreateClusterRequest.Size = ''SizeAlef1000'', Zones = []\<rparr>)]
             @ rest)
       \<and> (snd (requestK8sClusterCreation cfg pr (clusterEnv env)) = Ret None
          \<and> fetch (installEnv env) # fetches (installEnv env) = pre @ g # post
          \<and> (\<forall>h \<in> set pre. pending h) \<and> observed g = Some inst
          \<and> Installation.State inst = ''stable'' \<longrightarrow>
            initializations (fst (createSpinWick cfg pr size' env)) = 1)
       \<and> initializations (fst (waitMattermostInstallation cfg pr i True ans f fs)) = 0
       \<and> initializations (fst (updateSpinWick cfg pr uenv)) = 0"
proof -
  let ?K = "requestK8sClusterCreation cfg pr (clusterEnv env)"
  let ?W = "waitMattermostInstallation cfg pr (createdID env) False (answers (installEnv env))
              (fetch (installEnv env)) (fetches (installEnv env))"
  from createSpinWick_needsCluster [OF assms, of cfg size'] obtain url request where
    order: "fst (createSpinWick cfg pr size' env)
              = [Request ''POST'' url request, getInstallation cfg (createdID env)] @ fst ?K
                @ (if snd ?K = Ret None then fst ?W else [])"
    by blast
  have started: "\<exists>rest. fst ?K
           = [Comment (RepoOwner pr) (RepoName pr) (Number pr)
                ''Please wait while a new kubernetes cluster is created for your SpinWick'',
              Request ''POST'' (ProvisionerServer cfg @ ''/api/clusters'')
                (ClusterBody \<lparr>CreateClusterRequest.Provider = [],
                              CreateClusterRequest.Size = ''SizeAlef1000'', Zones = []\<rparr>)]
             @ rest"
    by (auto simp: requestK8sClusterCreation_def Let_def fst_emit split: sum.splits option.splits)
  have once: "initializations (fst (createSpinWick cfg pr size' env)) = 1"
    if "snd ?K = Ret None" "fetch (installEnv env) # fetches (installEnv env) = pre @ g # post"
      "\<forall>h \<in> set pre. pending h" "observed g = Some inst" "Installation.State inst = ''stable''"
    using initializations_prefix [OF that(2-5), of cfg pr "createdID env" "answers (installEnv env)"]
      that(1)
    by (simp add: order initializations_append initializations_requestK8s getInstallation_def)
  from order started once initializations_upgrade [of cfg pr i ans f fs]
    initializations_updateSpinWick [of cfg pr uenv]
  show ?thesis by blast
qed


theorem cluster_then_bootstrap_once_witness:
  "initializations (fst (createSpinWick exConfig exPR ''miniSingleton'' exCreateEnv)) = 1
   \<and> initializations (fst (updateSpinWick exConfig exPR (exUpdateEnv 202))) = 0"
proof -
  have len: "7 \<le> length (Sha exPR)" by (simp add: exPR_def)
  have nc: "needsCluster exCreateEnv"
    by (simp add: needsCluster_def exCreateEnv_def exAnswer_def exInstallation_def)
  have k: "snd (requestK8sClusterCreation exConfig exPR (clusterEnv exCreateEnv)) = Ret None"
    by (simp add: requestK8sClusterCreation_def exCreateEnv_def exAnswer_def exCluster_def
                  waitK8sCluster.simps zeroCluster_def emit_def Let_def)
  have fs: "fetch (installEnv exCreateEnv) # fetches (installEnv exCreateEnv)
              = [exAnswer (exInstallation ''inst1'' ''creating'')]
                @ exAnswer (exInstallation ''inst1'' ''stable'') # []"
    by (simp add: exCreateEnv_def exInstallEnv_def)
  have pre: "\<forall>h \<in> set [exAnswer (exInstallation ''inst1'' ''creating'')]. pending h"
    by (simp add: pending_ex)
  have st: "Installation.State (exInstallation ''inst1'' ''stable'') = ''stable''"
    by (simp add: exInstallation_def)
  from cluster_then_bootstrap_once [OF len nc, where cfg = exConfig
         and size' = "''miniSingleton''"
         and pre = "[exAnswer (exInstallation ''inst1'' ''creating'')]"
         and g = "exAnswer (exInstallation ''inst1'' ''stable'')" and post = "[]"
         and inst = "exInstallation ''inst1'' ''stable''" and uenv = "exUpdateEnv 202"]
    k fs pre observed_ex [of "exInstallation ''inst1'' ''stable''"] st
  show ?thesis by blast
qed

text \<open>
  Claim C9. In a run of \<^verbatim>\<open>updateSpinWick\<close> that reaches the upgrade request with a head
  commit hash of at least seven characters, and whose PUT request is answered: on
  status 202 the next request is the GET that polls the installation, and the whole run
  of \<^verbatim>\<open>waitMattermostInstallation\<close> for the upgrade follows the PUT; on any other status
  the PUT is the only request of the run, the run ends with the failure comment on the
  pull request and returns.
\<close>

theorem upgrade_response_status:
  assumes "reachesUpgrade cfg pr env" and "7 \<le> length (Sha pr)"
    and "upgradeAnswer env = Inr resp"
  shows "(StatusCode resp = 202 \<longrightarrow>
           (\<exists>sp link rest.
              spinmintAnswer env = Inr (Some sp)
            \<and> requests (fst (updateSpinWick cfg pr env))
                = Request ''PUT''
                    (ProvisionerServer cfg @ ''/api/installation/'' @ InstanceId sp @ ''/mattermost'')
                    (upgradePayload (take 7 (Sha pr)))
                  # getInstallation cfg (InstanceId sp) # rest
            \<and> requests (fst (updateSpinWick cfg pr env))
                = Request ''PUT''
                    (ProvisionerServer cfg @ ''/api/installation/'' @ InstanceId sp @ ''/mattermost'')
                    (upgradePayload (take 7 (Sha pr)))
                  # requests (fst (waitMattermostInstallation cfg (pr\<lparr>BuildLink := link\<rparr>)
                                    (InstanceId sp) True (answers (upgradeEnv env))
                                    (fetch (upgradeEnv env)) (fetches (upgradeEnv env))))))
       \<and> (StatusCode resp \<noteq> 202 \<longrightarrow>
           (\<exists>sp. spinmintAnswer env = Inr (Some sp)
            \<and> requests (fst (updateSpinWick cfg pr env))
                = [Request ''PUT''
                     (ProvisionerServer cfg @ ''/api/installation/'' @ InstanceId sp @ ''/mattermost'')
                     (upgradePayload (take 7 (Sha pr)))])
         \<and> last (fst (updateSpinWick cfg pr env))
             = Comment (RepoOwner pr) (RepoName pr) (Number pr)
                 ''Error doing the upgrade process. Please remove the label and try again.''
         \<and> snd (updateSpinWick cfg pr env) = Ret ())"
proof -
  from assms(1) obtain t1 link sp t2 where
    facts: "checkBuildLink cfg pr (linkPoll env) (linkPolls env) = (t1, Ret (Inr link))"
      "link \<noteq> []" "spinmintAnswer env = Inr (Some sp)"
      "waitForBuildComplete cfg (pr\<lparr>BuildLink := link\<rparr>) (waitForBuildAnswer env) = (t2, Ret None)"
      "\<exists>label \<in> set (Labels pr). label = SetupSpinWick cfg \<or> label = SetupSpinWickHA cfg"
      "requests t1 = []" "requests t2 = []"
    by (rule reachesUpgradeD)
  let ?put = "Request ''PUT''
                (ProvisionerServer cfg @ ''/api/installation/'' @ InstanceId sp @ ''/mattermost'')
                (upgradePayload (take 7 (Sha pr)))"
  let ?W = "waitMattermostInstallation cfg (pr\<lparr>BuildLink := link\<rparr>) (InstanceId sp) True
              (answers (upgradeEnv env)) (fetch (upgradeEnv env)) (fetches (upgradeEnv env))"
  obtain tw rw where w: "?W = (tw, rw)" by (cases ?W)
  obtain rest where first: "tw = getInstallation cfg (InstanceId sp) # rest"
    using waitMM_first [of cfg "pr\<lparr>BuildLink := link\<rparr>" "InstanceId sp" True
                           "answers (upgradeEnv env)" "fetch (upgradeEnv env)"
                           "fetches (upgradeEnv env)"] w
    by auto
  have accepted: "requests (fst (updateSpinWick cfg pr env)) = ?put # requests (fst ?W)"
    if "StatusCode resp = 202"
    using facts assms(2,3) that w
    by (cases rw)
       (auto simp: updateSpinWick_def Let_def emit_def requests_def sliceString_def
                   upgradePayload_def
             split: option.splits)
  have polls: "requests (fst ?W) = getInstallation cfg (InstanceId sp) # requests rest"
    using w first by (simp add: requests_Cons getInstallation_def)
  have refused: "requests (fst (updateSpinWick cfg pr env)) = [?put]
         \<and> last (fst (updateSpinWick cfg pr env))
             = Comment (RepoOwner pr) (RepoName pr) (Number pr)
                 ''Error doing the upgrade process. Please remove the label and try again.''
         \<and> snd (updateSpinWick cfg pr env) = Ret ()"
    if "StatusCode resp \<noteq> 202"
    using facts assms(2,3) that
    by (auto simp: updateSpinWick_def Let_def emit_def requests_def sliceString_def
                   upgradePayload_def
             split: option.splits)
  have A: "StatusCode resp = 202 \<longrightarrow>
           (\<exists>sp link rest.
              spinmintAnswer env = Inr (Some sp)
            \<and> requests (fst (updateSpinWick cfg pr env))
                = Request ''PUT''
                    (ProvisionerServer cfg @ ''/api/installation/'' @ InstanceId sp @ ''/mattermost'')
                    (upgradePayload (take 7 (Sha pr)))
                  # getInstallation cfg (InstanceId sp) # rest
            \<and> requests (fst (updateSpinWick cfg pr env))
                = Request ''PUT''
                    (ProvisionerServer cfg @ ''/api/installation/'' @ InstanceId sp @ ''/mattermost'')
                    (upgradePayload (take 7 (Sha pr)))
                  # requests (fst (waitMattermostInstallation cfg (pr\<lparr>BuildLink := link\<rparr>)
                                    (InstanceId sp) True (answers (upgradeEnv env))
                                    (fetch (upgradeEnv env)) (fetches (upgradeEnv env)))))"
    using accepted polls facts(3)
    by (intro impI exI [of _ sp] exI [of _ link] exI [of _ "requests rest"]) simp
  from A refused facts(3) show ?thesis by blast
qed

theorem upgrade_response_status_witness:
  "take 2 (requests (fst (updateSpinWick exConfig exPR (exUpdateEnv 202))))
     = [Request ''PUT'' ''https://provisioner/api/installation/inst1/mattermost''
          (upgradePayload ''0123456''),
        getInstallation exConfig ''inst1'']
   \<and> requests (fst (updateSpinWick exConfig exPR (exUpdateEnv 500)))
     = [Request ''PUT'' ''https://provisioner/api/installation/inst1/mattermost''
          (upgradePayload ''0123456'')]
   \<and> last (fst (updateSpinWick exConfig exPR (exUpdateEnv 500)))
     = Comment ''mattermost'' ''Mattermost-Server'' 42
         ''Error doing the upgrade process. Please remove the label and try again.''"
proof -
  have len: "7 \<le> length (Sha exPR)" by (simp add: exPR_def)
  have up: "reachesUpgrade exConfig exPR (exUpdateEnv status)" for status
    using reachesUpgrade_ex [of "Sha exPR" status] by simp
  have ans: "upgradeAnswer (exUpdateEnv status) = Inr (Response status DecodeEOF)" for status
    by (simp add: exUpdateEnv_def)
  have sp: "spinmintAnswer (exUpdateEnv status) = Inr (Some exSpinmint)" for status
    by (simp add: exUpdateEnv_def exSpinmint_def)
  have vals: "InstanceId exSpinmint = ''inst1''" "ProvisionerServer exConfig = ''https://provisioner''"
    "take 7 (Sha exPR) = ''0123456''" "RepoOwner exPR = ''mattermost''"
    "RepoName exPR = ''Mattermost-Server''" "Number exPR = 42"
    by (simp_all add: exSpinmint_def exConfig_def exPR_def)
  from upgrade_response_status [OF up len ans, of 202] sp [of 202]
  have a: "take 2 (requests (fst (updateSpinWick exConfig exPR (exUpdateEnv 202))))
     = [Request ''PUT'' ''https://provisioner/api/installation/inst1/mattermost''
          (upgradePayload ''0123456''),
        getInstallation exConfig ''inst1'']"
    by (auto simp: vals)
  from upgrade_response_status [OF up len ans, of 500] sp [of 500]
  have b: "requests (fst (updateSpinWick exConfig exPR (exUpdateEnv 500)))
     = [Request ''PUT'' ''https://provisioner/api/installation/inst1/mattermost''
          (upgradePayload ''0123456'')]
   \<and> last (fst (updateSpinWick exConfig exPR (exUpdateEnv 500)))
     = Comment ''mattermost'' ''Mattermost-Server'' 42
         ''Error doing the upgrade process. Please remove the label and try again.''"
    by (auto simp: vals)
  from a b show ?thesis by blast
qed

section \<open>Properties of the build waiter's signals\<close>

text \<open>
  Claim C3, as stated, at two runs of \<^verbatim>\<open>waitForBuild\<close> for a pull request of
  \<^verbatim>\<open>mattermost-server\<close>: the store and \<^verbatim>\<open>GetUpdateChecks\<close> answer the same in both, so the
  status, the conclusion and the link read from GitHub are the same, and the decisions
  differ with the result Jenkins reports for the build.
\<close>

theorem waitForBuild_jenkins_counterexample:
  "prGet (exBuildPoll exServerPR (exBuild False ''SUCCESS''))
     = prGet (exBuildPoll exServerPR (exBuild False ''FAILURE''))
   \<and> getUpdateChecks (exBuildPoll exServerPR (exBuild False ''SUCCESS''))
     = getUpdateChecks (exBuildPoll exServerPR (exBuild False ''FAILURE''))
   \<and> decision (waitForBuild ''mattermost-server'' exPR
                 [exBuildPoll exServerPR (exBuild False ''SUCCESS'')])
     = Ret None
   \<and> decision (waitForBuild ''mattermost-server'' exPR
                 [exBuildPoll exServerPR (exBuild False ''FAILURE'')])
     = Ret (Some (''build 7 failed with status '' @ [CHR 0x22] @ ''FAILURE'' @ [CHR 0x22]))"
  by (simp add: exBuildPoll_def exServerPR_def exPR_def exBuild_def sprintd_def Let_def)


lemma waitForBuild_decide:
  "decision (waitForBuild serverRepoName pr ps) = decide serverRepoName (map signalOf ps)"
proof (induction ps arbitrary: pr)
  case Nil
  show ?case by simp
next
  case (Cons p ps)
  show ?case
  proof (cases "snd (prGet p)")
    case (Some err)
    then show ?thesis by (simp add: signalOf_def)
  next
    case None
    note stored_ok = this
    show ?thesis
    proof (cases "fst (prGet p)")
      case None
      with stored_ok show ?thesis by (simp add: signalOf_def)
    next
      case (Some pr1)
      note stored = this
      show ?thesis
      proof (cases "snd (getUpdateChecks p)")
        case (Some err)
        with stored_ok stored show ?thesis by (simp add: signalOf_def)
      next
        case None
        note updated_ok = this
        show ?thesis
        proof (cases "fst (getUpdateChecks p)")
          case None
          with stored_ok stored updated_ok show ?thesis by (simp add: signalOf_def)
        next
          case (Some pr2)
          show ?thesis
          proof (cases "RepoName pr2 = ''mattermost-webapp''")
            case True
            with stored_ok stored updated_ok Some Cons.IH [of pr2] show ?thesis
              by (simp add: signalOf_def)
          next
            case False
            with stored_ok stored updated_ok Some Cons.IH [of pr2] show ?thesis
              by (simp add: signalOf_def Let_def split: option.splits)
          qed
        qed
      qed
    qed
  qed
qed


lemma scanStatuses_relevant:
  "scanStatuses (Some r) (filter (relevantStatus (BuildStatusContext r)) statuses)
     = scanStatuses (Some r) statuses"
  by (induction statuses) (auto simp: relevantStatus_def split: option.splits)

lemma scanCheckRuns_relevant:
  "scanCheckRuns (Some r) (filter (relevantCheck (BuildStatusContext r)) checks)
     = scanCheckRuns (Some r) checks"
  by (induction checks) (auto simp: relevantCheck_def split: option.splits)

lemma checkBuildLink_select:
  assumes "GetRepository cfg (RepoOwner pr) (RepoName pr) = (Some r, ok)"
  shows "checkBuildLink cfg pr (selectPoll (BuildStatusContext r) p)
           (map (selectPoll (BuildStatusContext r)) ps)
         = checkBuildLink cfg pr p ps"
proof (induction ps arbitrary: p)
  case Nil
  show ?case using assms
    by (cases "combinedStatus p"; cases "checkRuns p")
       (simp_all add: checkBuildLink.simps selectPoll_def scanStatuses_relevant
                      scanCheckRuns_relevant Let_def
                 split: result.splits option.splits)
next
  case (Cons q qs)
  show ?case using assms Cons.IH [of q]
    by (cases "combinedStatus p"; cases "checkRuns p")
       (simp_all add: checkBuildLink.simps [of _ _ _ "_ # _"] selectPoll_def
                      scanStatuses_relevant scanCheckRuns_relevant Let_def
                 split: result.splits option.splits)
qed

text \<open>
  Claim C3, amended. The decision of \<^verbatim>\<open>waitForBuild\<close> is a function only of the signals of
  its turns: for a pull request of \<^verbatim>\<open>mattermost-webapp\<close> the fetched status and conclusion,
  for one of another repository its name, the fetched build link and the answers of
  Jenkins for that link; the configured context key is not consulted there. In
  \<^verbatim>\<open>checkBuildLink\<close> the result is a function only of the statuses and check runs whose
  context or name is the configured key of the repository, and two runs that differ
  only in that key can read different entries and return different links.
\<close>

theorem build_decision_signals:
  "decision (waitForBuild serverRepoName pr ps) = decide serverRepoName (map signalOf ps)
   \<and> (\<forall>repo ok.
          GetRepository cfg (RepoOwner pr') (RepoName pr') = (Some repo, ok)
        \<and> map (selectPoll (BuildStatusContext repo)) (p # polls)
            = map (selectPoll (BuildStatusContext repo)) (q # polls') \<longrightarrow>
          checkBuildLink cfg pr' p polls = checkBuildLink cfg pr' q polls')
   \<and> snd (checkBuildLink (exConfigWithContext ''ci/build'') exPR exLinkPoll [])
       = Ret (Inr ''https://jenkins/job/7'')
   \<and> snd (checkBuildLink (exConfigWithContext ''ci/circleci'') exPR exLinkPoll [])
       = Ret (Inr ''https://circleci/42'')"
proof -
  have same: "checkBuildLink cfg pr' p polls = checkBuildLink cfg pr' q polls'"
    if r: "GetRepository cfg (RepoOwner pr') (RepoName pr') = (Some repo, ok)"
      and m: "map (selectPoll (BuildStatusContext repo)) (p # polls)
                = map (selectPoll (BuildStatusContext repo)) (q # polls')"
    for repo ok
  proof -
    have "checkBuildLink cfg pr' p polls
            = checkBuildLink cfg pr' (selectPoll (BuildStatusContext repo) p)
                (map (selectPoll (BuildStatusContext repo)) polls)"
      by (rule checkBuildLink_select [OF r, symmetric])
    also have "\<dots> = checkBuildLink cfg pr' (selectPoll (BuildStatusContext repo) q)
                (map (selectPoll (BuildStatusContext repo)) polls')"
      using m by simp
    also have "\<dots> = checkBuildLink cfg pr' q polls'"
      by (rule checkBuildLink_select [OF r])
    finally show ?thesis .
  qed
  have a: "snd (checkBuildLink (exConfigWithContext ''ci/build'') exPR exLinkPoll [])
       = Ret (Inr ''https://jenkins/job/7'')"
    by (simp add: checkBuildLink.simps exConfigWithContext_def exLinkPoll_def)
  have b: "snd (checkBuildLink (exConfigWithContext ''ci/circleci'') exPR exLinkPoll [])
       = Ret (Inr ''https://circleci/42'')"
    by (simp add: checkBuildLink.simps exConfigWithContext_def exLinkPoll_def)
  from waitForBuild_decide [of serverRepoName pr ps] same a b show ?thesis by blast
qed

theorem build_decision_signals_witness:
  "checkBuildLink (exConfigWithContext ''ci/build'') exPR exNoisyLinkPoll []
     = checkBuildLink (exConfigWithContext ''ci/build'') exPR
         (exLinkPoll\<lparr>combinedStatus :=
                       Inr [\<lparr>Context = Some ''ci/build'',
                              TargetURL = Some ''https://jenkins/job/7''\<rparr>]\<rparr>) []
   \<and> decision (waitForBuild ''mattermost-server'' exPR
                 [exBuildPoll (exSignalPR ''mattermost-webapp'' ''completed'' ''failure'')
                    (exBuild False ''SUCCESS'')])
     = Ret (Some ''build failed'')"
proof -
  let ?cfg = "exConfigWithContext ''ci/build''"
  let ?q = "exLinkPoll\<lparr>combinedStatus :=
              Inr [\<lparr>Context = Some ''ci/build'', TargetURL = Some ''https://jenkins/job/7''\<rparr>]\<rparr>"
  let ?poll = "exBuildPoll (exSignalPR ''mattermost-webapp'' ''completed'' ''failure'')
                 (exBuild False ''SUCCESS'')"
  have r: "GetRepository ?cfg (RepoOwner exPR) (RepoName exPR)
             = (Some \<lparr>JenkinsServer = ''jenkins'', BuildStatusContext = ''ci/build''\<rparr>, True)"
    by (simp add: exConfigWithContext_def)
  have m: "map (selectPoll (BuildStatusContext \<lparr>JenkinsServer = ''jenkins'', BuildStatusContext = ''ci/build''\<rparr>))
             (exNoisyLinkPoll # [])
           = map (selectPoll (BuildStatusContext \<lparr>JenkinsServer = ''jenkins'', BuildStatusContext = ''ci/build''\<rparr>))
               (?q # [])"
    by (simp add: selectPoll_def exNoisyLinkPoll_def exLinkPoll_def relevantStatus_def
                  relevantCheck_def)
  note t = build_decision_signals [of "''mattermost-server''" exPR "[?poll]" ?cfg exPR
             exNoisyLinkPoll "[]" ?q "[]"]
  have sig: "signalOf ?poll = CheckSignal ''completed'' ''failure''"
    by (simp add: signalOf_def exBuildPoll_def exSignalPR_def)
  from t r m have a: "checkBuildLink ?cfg exPR exNoisyLinkPoll [] = checkBuildLink ?cfg exPR ?q []"
    by blast
  from t have "decision (waitForBuild ''mattermost-server'' exPR [?poll])
                 = decide ''mattermost-server'' (map signalOf [?poll])"
    by blast
  then have b: "decision (waitForBuild ''mattermost-server'' exPR [?poll]) = Ret (Some ''build failed'')"
    by (simp add: sig)
  from a b show ?thesis by blast
qed

end
